theory Spec2Isabelle
  imports Main "HOL-Library.Word" "HOL-Library.AList"
begin

unbundle bit_operations_syntax

section \<open>Beacon blocks: acquire-once header and body (package beacon, type Block)\<close>

text \<open>
  A root is a 32-byte array (\<open>phase0.Root\<close>), read here as the 256-bit word it holds.
  Slots, fork keys and distances are unsigned 64-bit counters that the code only
  compares and increments by one; they are natural numbers here.
\<close>

type_synonym Root = "256 word"
type_synonym bytes = "8 word list"
type_synonym ForkKey = nat

text \<open>Of the signed header only the parent root is read by the code under study.\<close>

record BeaconBlockHeader =
  ParentRoot :: Root
  StateRoot :: Root
  BodyRoot :: Root

record SignedBeaconBlockHeader =
  Message :: BeaconBlockHeader

text \<open>
  The versioned block body is a value of an external library; \<open>setBlockIndex\<close> reads it
  through four accessors, which are the four fields kept here.
\<close>

record VersionedSignedBeaconBlock =
  bodyGraffiti :: bytes
  bodyExecutionExtraData :: bytes
  bodyExecutionBlockHash :: bytes
  bodyExecutionBlockNumber :: nat

record BlockBodyIndex =
  Graffiti :: bytes
  ExecutionExtraData :: bytes
  ExecutionHash :: bytes
  ExecutionNumber :: nat

text \<open>
  A Go channel that is only ever closed: nil, open, or closed. Closing a closed or a nil
  channel panics.
\<close>

datatype chan = NilChan | OpenChan | ClosedChan

datatype panic = CloseOfClosedChannel | CloseOfNilChannel | NilPointerDereference

fun close_chan :: "chan \<Rightarrow> panic + chan" where
  "close_chan OpenChan = Inr ClosedChan"
| "close_chan ClosedChan = Inl CloseOfClosedChannel"
| "close_chan NilChan = Inl CloseOfNilChannel"

text \<open>
  The fields of \<open>Block\<close> that the functions below read or write. The mutexes are left
  out: the model is sequential, every call runs to its end before the next one starts.
\<close>

record Block =
  Root :: Root
  Slot :: nat
  parentRoot :: "Root option"
  forkId :: ForkKey
  headerChan :: chan
  header :: "SignedBeaconBlockHeader option"
  blockChan :: chan
  block :: "VersionedSignedBeaconBlock option"
  blockIndex :: "BlockBodyIndex option"
  isInFinalizedDb :: bool
  isInUnfinalizedDb :: bool

definition newBlock :: "Root \<Rightarrow> nat \<Rightarrow> Block" where
  "newBlock root slot =
     \<lparr> Root = root, Slot = slot, parentRoot = None, forkId = 0,
       headerChan = OpenChan, header = None,
       blockChan = OpenChan, block = None, blockIndex = None,
       isInFinalizedDb = False, isInUnfinalizedDb = False \<rparr>"

definition GetParentRoot :: "Block \<Rightarrow> Root option" where
  "GetParentRoot b =
     (case parentRoot b of
        Some r \<Rightarrow> Some r
      | None \<Rightarrow> (case header b of None \<Rightarrow> None | Some h \<Rightarrow> Some (ParentRoot (Message h))))"

text \<open>\<open>SetHeader\<close>: the header is stored first; the channel is closed when it is not nil.\<close>

definition SetHeader :: "SignedBeaconBlockHeader option \<Rightarrow> Block \<Rightarrow> panic + Block" where
  "SetHeader hdr b =
     (let b1 = b\<lparr>header := hdr\<rparr> in
      if hdr \<noteq> None
      then (case close_chan (headerChan b1) of
              Inl p \<Rightarrow> Inl p
            | Inr c \<Rightarrow> Inr (b1\<lparr>headerChan := c\<rparr>))
      else Inr b1)"

text \<open>
  \<open>EnsureHeader\<close>: \<open>loadHeader\<close> is the result of the loader callback, an error or a
  header pointer (possibly nil). The function returns its error (if any) and the block.
\<close>

definition EnsureHeader ::
  "(string + SignedBeaconBlockHeader option) \<Rightarrow> Block \<Rightarrow> panic + (string option \<times> Block)" where
  "EnsureHeader loadHeader b =
     (if header b \<noteq> None then Inr (None, b)
      else if isInUnfinalizedDb b \<or> isInFinalizedDb b then Inr (None, b)
      else if header b \<noteq> None then Inr (None, b)
      else (case loadHeader of
              Inl err \<Rightarrow> Inr (Some err, b)
            | Inr hdr \<Rightarrow>
                (let b1 = b\<lparr>header := hdr\<rparr> in
                 case close_chan (headerChan b1) of
                   Inl p \<Rightarrow> Inl p
                 | Inr c \<Rightarrow> Inr (None, b1\<lparr>headerChan := c\<rparr>))))"

definition setBlockIndex :: "VersionedSignedBeaconBlock option \<Rightarrow> Block \<Rightarrow> panic + Block" where
  "setBlockIndex body b =
     (case body of
        None \<Rightarrow> Inl NilPointerDereference
      | Some v \<Rightarrow>
          Inr (b\<lparr>blockIndex := Some \<lparr> Graffiti = bodyGraffiti v,
                                      ExecutionExtraData = bodyExecutionExtraData v,
                                      ExecutionHash = bodyExecutionBlockHash v,
                                      ExecutionNumber = bodyExecutionBlockNumber v \<rparr>\<rparr>))"

text \<open>The tail shared by \<open>SetBlock\<close> and \<open>EnsureBlock\<close>: close the channel unless it is nil.\<close>

definition closeBlockChan :: "Block \<Rightarrow> panic + Block" where
  "closeBlockChan b =
     (if blockChan b \<noteq> NilChan
      then (case close_chan (blockChan b) of
              Inl p \<Rightarrow> Inl p
            | Inr _ \<Rightarrow> Inr (b\<lparr>blockChan := NilChan\<rparr>))
      else Inr b)"

definition SetBlock :: "VersionedSignedBeaconBlock option \<Rightarrow> Block \<Rightarrow> panic + Block" where
  "SetBlock body b =
     (case setBlockIndex body b of
        Inl p \<Rightarrow> Inl p
      | Inr b1 \<Rightarrow> closeBlockChan (b1\<lparr>block := body\<rparr>))"

definition EnsureBlock ::
  "(string + VersionedSignedBeaconBlock option) \<Rightarrow> Block \<Rightarrow> panic + ((bool \<times> string option) \<times> Block)" where
  "EnsureBlock loadBlock b =
     (if block b \<noteq> None then Inr ((False, None), b)
      else if isInUnfinalizedDb b \<or> isInFinalizedDb b then Inr ((False, None), b)
      else if block b \<noteq> None then Inr ((False, None), b)
      else (case loadBlock of
              Inl err \<Rightarrow> Inr ((False, Some err), b)
            | Inr body \<Rightarrow>
                (case setBlockIndex body b of
                   Inl p \<Rightarrow> Inl p
                 | Inr b1 \<Rightarrow>
                     (case closeBlockChan (b1\<lparr>block := body\<rparr>) of
                        Inl p \<Rightarrow> Inl p
                      | Inr b2 \<Rightarrow> Inr ((True, None), b2)))))"

section \<open>Event stream client (package eventstream)\<close>

text \<open>
  \<open>time.Duration\<close> is a signed 64-bit count of nanoseconds; its arithmetic wraps.
  An event carries its retry value as an \<open>int64\<close> of milliseconds.
\<close>

type_synonym Duration = "64 word"

definition Millisecond :: Duration where
  "Millisecond = 1000000"

record StreamEvent =
  Id' :: string
  Event :: string
  Data :: string
  Retry :: "64 word"

record Stream =
  lastEventId :: string
  retry :: Duration
  isClosed :: bool


text \<open>
  \<open>receiveEvents\<close> on one connection: the decoder yields the events of the list and then
  an error (end of file, a decode error, a network error). The result is the stream and
  the events sent on the \<open>Events\<close> channel.
\<close>

fun receiveEvents :: "Stream \<Rightarrow> StreamEvent list \<Rightarrow> Stream \<times> StreamEvent list" where
  "receiveEvents stream [] = (stream, [])"
| "receiveEvents stream (ev # evs) =
     (if isClosed stream then (stream, [])
      else
        (let s1 = (if 0 <s Retry ev then stream\<lparr>retry := Retry ev * Millisecond\<rparr> else stream);
             s2 = (if length (Id' ev) > 0 then s1\<lparr>lastEventId := Id' ev\<rparr> else s1);
             (s3, sent) = receiveEvents s2 evs
         in (s3, ev # sent)))"

text \<open>
  The goroutine started by \<open>stream\<close> and the reconnect loop call each other. Their input
  is the history of the connections: for each connection the events received on it before
  it failed, and the outcomes of the connect attempts that followed (\<open>True\<close> for a
  connect that succeeded). The result lists every duration passed to \<open>time.Sleep\<close>, in
  order, and the stream at the end of the history.
\<close>

fun stream :: "Stream \<Rightarrow> (StreamEvent list \<times> bool list) list \<Rightarrow> Duration list \<times> Stream"
and retryRestartStream ::
  "Stream \<Rightarrow> bool list \<Rightarrow> (StreamEvent list \<times> bool list) list \<Rightarrow> Duration list \<times> Stream"
and retryRestartStream_loop ::
  "Stream \<Rightarrow> Duration \<Rightarrow> bool list \<Rightarrow> (StreamEvent list \<times> bool list) list \<Rightarrow> Duration list \<times> Stream"
where
  "stream s [] = ([], s)"
| "stream s ((evs, attempts) # later) =
     (let s1 = fst (receiveEvents s evs)
      in if isClosed s1 then ([], s1) else retryRestartStream s1 attempts later)"
| "retryRestartStream s attempts later = retryRestartStream_loop s (retry s) attempts later"
| "retryRestartStream_loop s backoff [] later = ([], s)"
| "retryRestartStream_loop s backoff (connected # attempts) later =
     (if isClosed s then ([backoff], s)
      else if connected
      then (let (sleeps, s') = stream s later in (backoff # sleeps, s'))
      else (let (sleeps, s') = retryRestartStream_loop s (backoff * 2) attempts later
            in (backoff # sleeps, s')))"











section \<open>Deposit indexer (package indexer, type DepositIndexer)\<close>

type_synonym u64 = "64 word"

datatype DBEngineType = DBEnginePgsql | DBEngineSqlite

text \<open>A call ends with a returned error or with a run-time panic.\<close>

datatype failure = Error string | Panicked string

record DepositIndexerState =
  FinalBlock :: u64

text \<open>An execution-layer log, with the fields the indexer reads.\<close>

record Log =
  logTopics :: "bytes list"
  logData :: bytes
  logTxHash :: bytes
  logBlockNumber :: u64
  logBlockHash :: bytes

text \<open>
  A transaction as the indexer uses it: the result of \<open>types.Sender\<close> on it, and its
  recipient, which is nil for a contract creation.
\<close>

record Transaction =
  txSender :: "string + bytes"
  txTo :: "bytes option"

text \<open>The two calls made on the execution client; both can fail.\<close>

record ElClient =
  FilterLogs :: "u64 \<Rightarrow> u64 \<Rightarrow> string + Log list"
  TransactionByHash :: "bytes \<Rightarrow> string + Transaction"

record DepositTx =
  Index :: u64
  BlockNumber :: u64
  BlockTime :: u64
  BlockRoot :: bytes
  PublicKey :: bytes
  WithdrawalCredentials :: bytes
  Amount :: u64
  Signature :: bytes
  ValidSignature :: bool
  Orphaned :: bool
  TxHash :: bytes
  TxSender :: bytes
  TxTarget :: bytes

text \<open>
  The indexer. \<open>state\<close> is a pointer that is nil until \<open>loadState\<close> has run;
  \<open>depositContractAbi\<close> stands for \<open>Unpack("DepositEvent", data)\<close> of the parsed ABI,
  which returns the five byte strings of the event or an error.
\<close>

record DepositIndexer =
  state :: "DepositIndexerState option"
  batchSize :: int
  depositContractAbi :: "bytes \<Rightarrow> string + bytes list"
  depositEventTopic :: bytes

text \<open>\<open>binary.LittleEndian.Uint64\<close> reads eight bytes and panics on a shorter slice.\<close>

definition LittleEndian_Uint64 :: "bytes \<Rightarrow> u64 option" where
  "LittleEndian_Uint64 b = (if length b < 8 then None else Some (word_rcat (rev (take 8 b))))"

text \<open>
  The store, as far as the indexer writes it: the rows of \<open>deposit_txs\<close> and the explorer
  state rows by key. A transaction works on a copy that replaces the store at commit.
\<close>

record db =
  deposit_txs :: "DepositTx list"
  explorer_state :: "string \<rightharpoonup> DepositIndexerState"

text \<open>
  \<open>InsertDepositTxs\<close> (db/deposits.go): one row per deposit; on a row with the same
  \<open>(deposit_index, block_root)\<close> PostgreSQL updates \<open>orphaned\<close> only, SQLite replaces the row.
\<close>

fun upsertDepositTx :: "DBEngineType \<Rightarrow> DepositTx \<Rightarrow> DepositTx list \<Rightarrow> DepositTx list" where
  "upsertDepositTx eng d [] = [d]"
| "upsertDepositTx eng d (r # rows) =
     (if Index r = Index d \<and> BlockRoot r = BlockRoot d
      then (case eng of
              DBEnginePgsql \<Rightarrow> r\<lparr>Orphaned := Orphaned d\<rparr> # rows
            | DBEngineSqlite \<Rightarrow> d # rows)
      else r # upsertDepositTx eng d rows)"

definition InsertDepositTxs :: "DBEngineType \<Rightarrow> DepositTx list \<Rightarrow> DepositTx list \<Rightarrow> DepositTx list" where
  "InsertDepositTxs eng depositTxs rows = foldl (\<lambda>rs d. upsertDepositTx eng d rs) rows depositTxs"

text \<open>
  Modelled from the spec: \<open>db.SetExplorerState\<close> is not among the sources. The spec
  describes a single row per named indexer key that stores the serialized state; writing
  replaces the row of the key.
\<close>

definition SetExplorerState :: "string \<Rightarrow> DepositIndexerState \<Rightarrow> db \<Rightarrow> db" where
  "SetExplorerState key st tx = tx\<lparr>explorer_state := (explorer_state tx)(key \<mapsto> st)\<rparr>"

text \<open>
  Modelled from the spec: \<open>db.GetExplorerState\<close> is not among the sources. Reading the
  row of a key fills the state passed in when the row exists and leaves it as it is
  otherwise.
\<close>

definition GetExplorerState :: "string \<Rightarrow> DepositIndexerState \<Rightarrow> db \<Rightarrow> DepositIndexerState" where
  "GetExplorerState key dflt d = (case explorer_state d key of None \<Rightarrow> dflt | Some st \<Rightarrow> st)"

text \<open>Where the store fails during one call of \<open>persistFinalizedDepositTxs\<close>, if it does.\<close>

datatype dbFault = FailBegin | FailInsert | FailSetState | FailCommit

text \<open>
  \<open>persistFinalizedDepositTxs\<close>. The state in memory is reached through a pointer, so the
  assignment to \<open>FinalBlock\<close> stays whatever the transaction does afterwards; the deferred
  rollback only discards the writes of the transaction.
\<close>

definition persistFinalizedDepositTxs ::
  "DBEngineType \<Rightarrow> dbFault option \<Rightarrow> u64 \<Rightarrow> DepositTx list \<Rightarrow> DepositIndexerState \<Rightarrow> db
     \<Rightarrow> string option \<times> DepositIndexerState \<times> db" where
  "persistFinalizedDepositTxs eng fault toBlockNumber deposits st d =
     (if fault = Some FailBegin then (Some ''error starting db transactions'', st, d)
      else if fault = Some FailInsert then (Some ''error while inserting deposit txs'', st, d)
      else
        (let tx1 = d\<lparr>deposit_txs := InsertDepositTxs eng deposits (deposit_txs d)\<rparr>;
             st1 = st\<lparr>FinalBlock := toBlockNumber\<rparr>
         in if fault = Some FailSetState then (Some ''error while updating deposit state'', st1, d)
            else
              (let tx2 = SetExplorerState ''indexer.depositstate'' st1 tx1
               in if fault = Some FailCommit then (Some ''error committing db transaction'', st1, d)
                  else (None, st1, tx2))))"

text \<open>
  The row built from one decoded event: \<open>event[4]\<close> and \<open>event[2]\<close> are read as
  little-endian numbers, the other three fields are copied.
\<close>

definition buildDepositTx :: "bytes list \<Rightarrow> Log \<Rightarrow> bytes \<Rightarrow> bytes \<Rightarrow> failure + DepositTx" where
  "buildDepositTx event lg txFrom txTo' =
     (case event of
        [pubkey, creds, amount, sig, idx] \<Rightarrow>
          (case (LittleEndian_Uint64 idx, LittleEndian_Uint64 amount) of
             (Some i, Some a) \<Rightarrow>
               Inr \<lparr> Index = i, BlockNumber = logBlockNumber lg,
                     BlockTime = 0, BlockRoot = logBlockHash lg,
                     PublicKey = pubkey, WithdrawalCredentials = creds,
                     Amount = a, Signature = sig,
                     ValidSignature = False, Orphaned = False,
                     TxHash = logTxHash lg, TxSender = txFrom, TxTarget = txTo' \<rparr>
           | _ \<Rightarrow> Inl (Panicked ''index out of range''))
      | _ \<Rightarrow> Inl (Panicked ''index out of range''))"

text \<open>
  The transaction of a log: fetched when \<open>txHash\<close> is nil or differs from the hash of
  the log, else the last one fetched.
\<close>

definition loadTxDetails ::
  "ElClient \<Rightarrow> bytes option \<Rightarrow> Transaction option \<Rightarrow> Log \<Rightarrow> failure + Transaction option" where
  "loadTxDetails client txHash txDetails lg =
     (if txHash = None \<or> txHash \<noteq> Some (logTxHash lg)
      then (case TransactionByHash client (logTxHash lg) of
              Inl err \<Rightarrow> Inl (Error ''could not load tx details'')
            | Inr tx \<Rightarrow> Inr (Some tx))
      else Inr txDetails)"

text \<open>
  Sender and recipient of the transaction; the recipient pointer is dereferenced.
\<close>

definition txParties :: "Transaction option \<Rightarrow> failure + (bytes \<times> bytes)" where
  "txParties txDetails =
     (case txDetails of
        None \<Rightarrow> Inl (Panicked ''nil pointer dereference'')
      | Some tx \<Rightarrow>
          (case txSender tx of
             Inl err \<Rightarrow> Inl (Error ''could not decode tx sender'')
           | Inr txFrom \<Rightarrow>
               (case txTo tx of
                  None \<Rightarrow> Inl (Panicked ''nil pointer dereference'')
                | Some txTo' \<Rightarrow> Inr (txFrom, txTo'))))"

text \<open>
  The loop over the logs of one batch. \<open>txHash\<close> and \<open>txDetails\<close> are the two variables
  declared before the loop; the code never assigns \<open>txHash\<close>, so it stays nil.
\<close>

fun collectDeposits ::
  "DepositIndexer \<Rightarrow> ElClient \<Rightarrow> bytes option \<Rightarrow> Transaction option \<Rightarrow> DepositTx list \<Rightarrow> Log list
     \<Rightarrow> failure + DepositTx list" where
  "collectDeposits ds client txHash txDetails depositTxs [] = Inr depositTxs"
| "collectDeposits ds client txHash txDetails depositTxs (lg # logs) =
     (case logTopics lg of
        [] \<Rightarrow> Inl (Panicked ''index out of range'')
      | topic0 # _ \<Rightarrow>
          if topic0 \<noteq> depositEventTopic ds
          then collectDeposits ds client txHash txDetails depositTxs logs
          else
            (case depositContractAbi ds (logData lg) of
               Inl err \<Rightarrow> Inl (Error ''error decoding deposit event'')
             | Inr event \<Rightarrow>
                 (case loadTxDetails client txHash txDetails lg of
                    Inl f \<Rightarrow> Inl f
                  | Inr txDetails' \<Rightarrow>
                      (case txParties txDetails' of
                         Inl f \<Rightarrow> Inl f
                       | Inr (txFrom, txTo') \<Rightarrow>
                           (case buildDepositTx event lg txFrom txTo' of
                              Inl f \<Rightarrow> Inl f
                            | Inr depositTx \<Rightarrow>
                                collectDeposits ds client txHash txDetails'
                                  (depositTxs @ [depositTx]) logs)))))"

text \<open>
  One pass of the body of the \<open>for\<close> loop of \<open>processFinalizedBlocks\<close>: the batch from
  \<open>FinalBlock\<close> to \<open>toBlock\<close>. \<open>faults\<close> says where the store fails when the batch that
  ends at a given block is persisted. The result is the error that ends the loop (if any),
  the state in memory and the store.
\<close>

definition processBatch ::
  "DBEngineType \<Rightarrow> ElClient \<Rightarrow> (u64 \<Rightarrow> dbFault option) \<Rightarrow> DepositIndexer \<Rightarrow> u64
     \<Rightarrow> DepositIndexerState \<Rightarrow> db \<Rightarrow> failure option \<times> DepositIndexerState \<times> db" where
  "processBatch eng client faults ds finalizedBlockNumber st d =
     (let toBlock0 = FinalBlock st + word_of_int (batchSize ds);
          toBlock = (if toBlock0 > finalizedBlockNumber then finalizedBlockNumber else toBlock0)
      in case FilterLogs client (FinalBlock st) toBlock of
           Inl err \<Rightarrow> (Some (Error ''error fetching deposit contract logs''), st, d)
         | Inr logs \<Rightarrow>
             (case collectDeposits ds client None None [] logs of
                Inl f \<Rightarrow> (Some f, st, d)
              | Inr depositTxs \<Rightarrow>
                  if length depositTxs > 0
                  then (case persistFinalizedDepositTxs eng (faults toBlock) toBlock depositTxs st d of
                          (Some err, st', d') \<Rightarrow> (Some (Error ''could not persist deposit txs''), st', d')
                        | (None, st', d') \<Rightarrow> (None, st', d'))
                  else (None, st, d)))"

text \<open>
  The \<open>for\<close> loop itself. It has no bound of its own, so it is a partial function:
  \<open>None\<close> is a loop that never returns.
\<close>

partial_function (option) processFinalizedBlocks_loop ::
  "DBEngineType \<Rightarrow> ElClient \<Rightarrow> (u64 \<Rightarrow> dbFault option) \<Rightarrow> DepositIndexer \<Rightarrow> u64
     \<Rightarrow> DepositIndexerState \<Rightarrow> db \<Rightarrow> (failure option \<times> DepositIndexerState \<times> db) option" where
  "processFinalizedBlocks_loop eng client faults ds finalizedBlockNumber st d =
     (if FinalBlock st < finalizedBlockNumber
      then (case processBatch eng client faults ds finalizedBlockNumber st d of
              (Some f, st', d') \<Rightarrow> Some (Some f, st', d')
            | (None, st', d') \<Rightarrow>
                processFinalizedBlocks_loop eng client faults ds finalizedBlockNumber st' d')
      else Some (None, st, d))"

text \<open>
  \<open>processFinalizedBlocks\<close>: \<open>client\<close> is the ready execution client, if there is one.
  The result is the returned error, the indexer and the store.
\<close>

definition processFinalizedBlocks ::
  "DBEngineType \<Rightarrow> ElClient option \<Rightarrow> (u64 \<Rightarrow> dbFault option) \<Rightarrow> u64 \<Rightarrow> DepositIndexer \<Rightarrow> db
     \<Rightarrow> (failure option \<times> DepositIndexer \<times> db) option" where
  "processFinalizedBlocks eng client faults finalizedBlockNumber ds d =
     (case client of
        None \<Rightarrow> Some (Some (Error ''no ready execution client found''), ds, d)
      | Some c \<Rightarrow>
          (case state ds of
             None \<Rightarrow> Some (Some (Panicked ''nil pointer dereference''), ds, d)
           | Some st \<Rightarrow>
               (case processFinalizedBlocks_loop eng c faults ds finalizedBlockNumber st d of
                  None \<Rightarrow> None
                | Some (r, st', d') \<Rightarrow> Some (r, ds\<lparr>state := Some st'\<rparr>, d'))))"

definition loadState :: "DepositIndexer \<Rightarrow> db \<Rightarrow> DepositIndexer" where
  "loadState ds d =
     ds\<lparr>state := Some (GetExplorerState ''indexer.depositstate'' \<lparr>FinalBlock = 0\<rparr> d)\<rparr>"

text \<open>
  One cycle, \<open>runDepositIndexer\<close>. \<open>finalized\<close> is what the lookups of the finalized
  checkpoint, its block, its body and its execution block number give: that number, or
  the error of the first lookup that fails.
\<close>

definition runDepositIndexer ::
  "DBEngineType \<Rightarrow> ElClient option \<Rightarrow> (u64 \<Rightarrow> dbFault option) \<Rightarrow> (string + u64) \<Rightarrow> DepositIndexer \<Rightarrow> db
     \<Rightarrow> (failure option \<times> DepositIndexer \<times> db) option" where
  "runDepositIndexer eng client faults finalized ds d =
     (let ds1 = (if state ds = None then loadState ds d else ds)
      in case finalized of
           Inl err \<Rightarrow> Some (Some (Error err), ds1, d)
         | Inr finalizedBlockNumber \<Rightarrow>
             (case state ds1 of
                None \<Rightarrow> Some (Some (Panicked ''nil pointer dereference''), ds1, d)
              | Some st \<Rightarrow>
                  if finalizedBlockNumber < FinalBlock st
                  then Some (Some (Error ''finalized block number smaller than index state''), ds1, d)
                  else if finalizedBlockNumber > FinalBlock st
                  then processFinalizedBlocks eng client faults finalizedBlockNumber ds1 d
                  else Some (None, ds1, d)))"

subsection \<open>A small execution chain to run the indexer on\<close>

text \<open>
  The topic is the hash of the \<open>DepositEvent\<close> signature. The sample decoder accepts one
  payload (standing for a well-formed event with index 0 and an amount of 32 ETH in gwei)
  and rejects everything else.
\<close>

definition depositTopic :: bytes where
  "depositTopic =
     [0x64, 0x9b, 0xbc, 0x62, 0xd0, 0xe3, 0x13, 0x42, 0xaf, 0xea, 0x4e, 0x5c, 0xd8, 0x2d, 0x40, 0x49,
      0xe7, 0xe1, 0xee, 0x91, 0x2f, 0xc0, 0x88, 0x9a, 0xa7, 0x90, 0x80, 0x3b, 0xe3, 0x90, 0x38, 0xc5]"

definition otherTopic :: bytes where
  "otherTopic = replicate 32 0x11"

definition goodData :: bytes where
  "goodData = [0x01]"

definition sampleAbi :: "bytes \<Rightarrow> string + bytes list" where
  "sampleAbi data =
     (if data = goodData
      then Inr [replicate 48 0xaa, replicate 32 0xbb, [0x00, 0x40, 0x59, 0x73, 0x07, 0, 0, 0],
                replicate 96 0xcc, [0, 0, 0, 0, 0, 0, 0, 0]]
      else Inl ''abi: cannot unmarshal'')"

definition goodLog :: Log where
  "goodLog = \<lparr> logTopics = [depositTopic], logData = goodData, logTxHash = replicate 32 0x22,
               logBlockNumber = 50, logBlockHash = replicate 32 0x33 \<rparr>"

definition badLog :: Log where
  "badLog = \<lparr> logTopics = [depositTopic], logData = [0xff], logTxHash = replicate 32 0x44,
              logBlockNumber = 40, logBlockHash = replicate 32 0x55 \<rparr>"

definition otherLog :: Log where
  "otherLog = \<lparr> logTopics = [otherTopic], logData = [], logTxHash = replicate 32 0x66,
                logBlockNumber = 30, logBlockHash = replicate 32 0x77 \<rparr>"

definition sampleTx :: Transaction where
  "sampleTx = \<lparr> txSender = Inr (replicate 20 0x0a), txTo = Some (replicate 20 0x0b) \<rparr>"

text \<open>Three execution clients: the logs they return do not depend on the range asked for.\<close>

definition clientWith :: "Log list \<Rightarrow> ElClient" where
  "clientWith logs = \<lparr> FilterLogs = (\<lambda>fromBlock toBlock. Inr logs),
                        TransactionByHash = (\<lambda>h. Inr sampleTx) \<rparr>"

definition sampleIndexer :: "DepositIndexerState option \<Rightarrow> DepositIndexer" where
  "sampleIndexer st = \<lparr> state = st, batchSize = 10000, depositContractAbi = sampleAbi,
                         depositEventTopic = depositTopic \<rparr>"

definition emptyDb :: db where
  "emptyDb = \<lparr> deposit_txs = [], explorer_state = Map.empty \<rparr>"

section \<open>Store statements (package db)\<close>

text \<open>
  The statements are SQL text in the source. Each is kept here as what the text says: the
  table, the column list, the number of placeholders in \<open>VALUES\<close> and the conflict
  clause.
\<close>

datatype sqlval = VInt int | VBytes bytes | VNull

datatype on_conflict =
  NoConflictClause
| OnConflictDoNothing "string list"
| OnConflictDoUpdate "string list" "string list"
| InsertOrReplace
| InsertOrIgnore

record insert_stmt =
  into_table :: string
  columns :: "string list"
  placeholders :: nat
  conflict :: on_conflict

text \<open>
  A table: its columns, its primary key and its rows; a row gives each column a value.
  The tables are those of the open transaction.
\<close>

type_synonym row = "string \<rightharpoonup> sqlval"

record table =
  tcolumns :: "string list"
  tkey :: "string list"
  trows :: "row list"

type_synonym tables = "string \<rightharpoonup> table"

definition same_key :: "string list \<Rightarrow> row \<Rightarrow> row \<Rightarrow> bool" where
  "same_key key r1 r2 = list_all (\<lambda>c. r1 c = r2 c) key"

text \<open>The conflict target of a clause that names one must be the key of the table.\<close>

fun target_ok :: "on_conflict \<Rightarrow> string list \<Rightarrow> bool" where
  "target_ok (OnConflictDoNothing target) key = (set target = set key)"
| "target_ok (OnConflictDoUpdate target cols) key = (set target = set key)"
| "target_ok c key = True"

text \<open>
  What both engines do with a single-row \<open>INSERT\<close>: the statement is rejected when the
  table or a column does not exist, when a column is named twice, or when columns, values
  and arguments differ in number; a row whose key is new is added; for a row whose key
  exists the conflict clause decides (\<open>DO NOTHING\<close> and \<open>OR IGNORE\<close> keep the stored row,
  \<open>DO UPDATE SET\<close> overwrites the listed columns, \<open>OR REPLACE\<close> replaces the row, no
  clause is an error).
\<close>

definition exec_insert :: "insert_stmt \<Rightarrow> sqlval list \<Rightarrow> tables \<Rightarrow> string + tables" where
  "exec_insert q args tx =
     (case tx (into_table q) of
        None \<Rightarrow> Inl ''no such table''
      | Some t \<Rightarrow>
          if length (columns q) \<noteq> placeholders q then Inl ''values and columns differ in number''
          else if length args \<noteq> placeholders q then Inl ''wrong number of arguments''
          else if \<not> distinct (columns q) then Inl ''column specified more than once''
          else if \<not> list_all (\<lambda>c. c \<in> set (tcolumns t)) (columns q) then Inl ''no such column''
          else if \<not> target_ok (conflict q) (tkey t) then Inl ''no unique constraint for the conflict target''
          else
            (let new = map_of (zip (columns q) args) in
             if filter (same_key (tkey t) new) (trows t) = []
             then Inr (tx(into_table q \<mapsto> t\<lparr>trows := trows t @ [new]\<rparr>))
             else
               (case conflict q of
                  NoConflictClause \<Rightarrow> Inl ''unique constraint violated''
                | OnConflictDoNothing target \<Rightarrow> Inr tx
                | InsertOrIgnore \<Rightarrow> Inr tx
                | OnConflictDoUpdate target cols \<Rightarrow>
                    Inr (tx(into_table q \<mapsto>
                           t\<lparr>trows := map (\<lambda>r. if same_key (tkey t) new r
                                                then r ++ (new |` set cols) else r) (trows t)\<rparr>))
                | InsertOrReplace \<Rightarrow>
                    Inr (tx(into_table q \<mapsto>
                           t\<lparr>trows := filter (\<lambda>r. \<not> same_key (tkey t) new r) (trows t) @ [new]\<rparr>)))))"

text \<open>
  Modelled from the spec: \<open>EngineQuery\<close> is not among the sources. The spec has it pick
  one of the two literal statements a call site supplies, by the engine in use; here the
  two statements of a call site are a function of the engine.
\<close>

definition EngineQuery :: "(DBEngineType \<Rightarrow> insert_stmt) \<Rightarrow> DBEngineType \<Rightarrow> insert_stmt" where
  "EngineQuery statements eng = statements eng"

text \<open>\<open>InsertFork\<close>: the statement for each engine, then the call with its six arguments.\<close>

definition InsertFork_query :: "DBEngineType \<Rightarrow> insert_stmt" where
  "InsertFork_query eng =
     (case eng of
        DBEnginePgsql \<Rightarrow>
          \<lparr> into_table = ''forks'',
            columns = [''fork_id'', ''base_slot'', ''base_root'', ''leaf_slot'', ''leaf_root'',
                       ''parent_fork''],
            placeholders = 6,
            conflict = OnConflictDoUpdate [''fork_id'']
                         [''base_slot'', ''base_root'', ''leaf_slot'', ''leaf_root'', ''parent_fork''] \<rparr>
      | DBEngineSqlite \<Rightarrow>
          \<lparr> into_table = ''unfinalized_blocks'',
            columns = [''fork_id'', ''root'', ''slot'', ''header_ver'', ''header_ssz'', ''block_ver'',
                       ''block_ssz'', ''status'', ''fork_id''],
            placeholders = 6,
            conflict = InsertOrReplace \<rparr>)"

text \<open>
  The row of the \<open>forks\<close> table (\<open>dbtypes.Fork\<close>), with the six fields \<open>InsertFork\<close>
  passes to the statement; roots are byte strings in the store.
\<close>

record dbFork =
  ForkId :: nat
  BaseSlot :: nat
  BaseRoot :: bytes
  LeafSlot :: nat
  LeafRoot :: bytes
  ParentFork :: nat

definition InsertFork :: "DBEngineType \<Rightarrow> dbFork \<Rightarrow> tables \<Rightarrow> string + tables" where
  "InsertFork eng fork tx =
     exec_insert (EngineQuery InsertFork_query eng)
       [VInt (int (ForkId fork)), VInt (int (BaseSlot fork)), VBytes (BaseRoot fork),
        VInt (int (LeafSlot fork)), VBytes (LeafRoot fork), VInt (int (ParentFork fork))] tx"

text \<open>The six columns of the \<open>forks\<close> table, as the spec lists them.\<close>

definition fork_columns :: "string list" where
  "fork_columns = [''fork_id'', ''base_slot'', ''base_root'', ''leaf_slot'', ''leaf_root'', ''parent_fork'']"

text \<open>
  \<open>InsertUnfinalizedBlock\<close>. The row type \<open>dbtypes.UnfinalizedBlock\<close> has the eight
  fields the call passes to the statement.
\<close>

record UnfinalizedBlock =
  ubRoot :: bytes
  ubSlot :: nat
  ubHeaderVer :: nat
  ubHeaderSSZ :: bytes
  ubBlockVer :: nat
  ubBlockSSZ :: bytes
  ubStatus :: nat
  ubForkId :: nat

definition InsertUnfinalizedBlock_query :: "DBEngineType \<Rightarrow> insert_stmt" where
  "InsertUnfinalizedBlock_query eng =
     (case eng of
        DBEnginePgsql \<Rightarrow>
          \<lparr> into_table = ''unfinalized_blocks'',
            columns = [''root'', ''slot'', ''header_ver'', ''header_ssz'', ''block_ver'', ''block_ssz'',
                       ''status'', ''fork_id''],
            placeholders = 8,
            conflict = OnConflictDoNothing [''root''] \<rparr>
      | DBEngineSqlite \<Rightarrow>
          \<lparr> into_table = ''unfinalized_blocks'',
            columns = [''root'', ''slot'', ''header_ver'', ''header_ssz'', ''block_ver'', ''block_ssz'',
                       ''status'', ''fork_id''],
            placeholders = 8,
            conflict = InsertOrIgnore \<rparr>)"

definition InsertUnfinalizedBlock :: "DBEngineType \<Rightarrow> UnfinalizedBlock \<Rightarrow> tables \<Rightarrow> string + tables" where
  "InsertUnfinalizedBlock eng blk tx =
     exec_insert (EngineQuery InsertUnfinalizedBlock_query eng)
       [VBytes (ubRoot blk), VInt (int (ubSlot blk)), VInt (int (ubHeaderVer blk)),
        VBytes (ubHeaderSSZ blk), VInt (int (ubBlockVer blk)), VBytes (ubBlockSSZ blk),
        VInt (int (ubStatus blk)), VInt (int (ubForkId blk))] tx"

text \<open>
  The \<open>unfinalized_blocks\<close> table of the spec, holding one block with root \<open>[1, 2]\<close>, and
  an empty \<open>forks\<close> table.
\<close>

definition storedRow :: row where
  "storedRow = [''root'' \<mapsto> VBytes [1, 2], ''slot'' \<mapsto> VInt 100, ''header_ver'' \<mapsto> VInt 1,
                ''header_ssz'' \<mapsto> VBytes [7], ''block_ver'' \<mapsto> VInt 3, ''block_ssz'' \<mapsto> VBytes [8],
                ''status'' \<mapsto> VInt 1, ''fork_id'' \<mapsto> VInt 5]"

definition sampleTables :: tables where
  "sampleTables =
     [''unfinalized_blocks'' \<mapsto>
        \<lparr> tcolumns = [''root'', ''slot'', ''header_ver'', ''header_ssz'', ''block_ver'', ''block_ssz'',
                       ''status'', ''fork_id'', ''payload_ver'', ''payload_ssz''],
          tkey = [''root''], trows = [storedRow] \<rparr>,
      ''forks'' \<mapsto> \<lparr> tcolumns = fork_columns, tkey = [''fork_id''], trows = [] \<rparr>]"

definition reinserted :: UnfinalizedBlock where
  "reinserted = \<lparr> ubRoot = [1, 2], ubSlot = 100, ubHeaderVer = 1, ubHeaderSSZ = [9], ubBlockVer = 4,
                   ubBlockSSZ = [10], ubStatus = 0, ubForkId = 0 \<rparr>"

section \<open>Fork cache (package beacon, type forkCache)\<close>

text \<open>
  Modelled from the spec: the \<open>Fork\<close> type is not among the sources. The spec gives a
  fork an id, the slot and root of its base, the slot and root of its leaf and the id of
  its parent fork; \<open>forkcache.go\<close> reads \<open>forkId\<close>, \<open>baseSlot\<close> and \<open>leafRoot\<close>.
  From here on \<open>forkId\<close> is the field of a fork and \<open>Block.forkId\<close> the one of a block.
\<close>

record Fork =
  forkId :: ForkKey
  baseSlot :: nat
  baseRoot :: Root
  leafSlot :: nat
  leafRoot :: Root
  parentFork :: ForkKey

text \<open>
  The part of the indexer that fork processing touches. The block cache and the fork map
  are Go maps. The block cache is kept as the list of its blocks, one per root; a block
  pointer is the root of the block. The fork map is kept as an association list with one
  entry per key; the order of that list has no meaning, since a \<open>range\<close> over a Go map
  yields the entries in an order chosen anew for every \<open>range\<close> statement.
\<close>

record Indexer =
  blockCache :: "Block list"
  forkMap :: "(ForkKey \<times> Fork) list"
  forkIdCounter :: ForkKey
  minForkDistance :: nat
  finalizedSlot :: nat

text \<open>
  Modelled from the spec: \<open>blockCache.getBlockByRoot\<close> is not among the sources. The spec
  has \<open>get_by_root(root)\<close> return the block of that root, if it is cached.
\<close>

definition getBlockByRoot :: "Block list \<Rightarrow> Root \<Rightarrow> Block option" where
  "getBlockByRoot cache root = find (\<lambda>b. Root b = root) cache"

text \<open>
  Modelled from the spec: \<open>blockCache.getForkBlocks\<close> is not among the sources. The spec
  has \<open>get_fork_blocks(fork_id)\<close> return all cached blocks currently labelled with that
  fork.
\<close>

definition getForkBlocks :: "Block list \<Rightarrow> ForkKey \<Rightarrow> Block list" where
  "getForkBlocks cache fid = filter (\<lambda>b. Block.forkId b = fid) cache"

text \<open>
  Modelled from the spec: \<open>blockCache.getCanonicalDistance\<close> is not among the sources. In
  the words of the spec, \<open>get_canonical_distance(from_root, to_root, cap)\<close> walks parent
  pointers from \<open>from_root\<close> until it either reaches \<open>to_root\<close> (it returns true and the
  depth) or exceeds \<open>cap\<close> or crosses the finalized slot (it returns false); the distance
  counts blocks; a parent that is not cached ends the walk. The code passes 0 where the
  spec writes an unbounded cap. The walk has no bound of its own, so it is a partial
  function.
\<close>

partial_function (option) canonicalWalk ::
  "Block list \<Rightarrow> nat \<Rightarrow> Root \<Rightarrow> nat \<Rightarrow> Block \<Rightarrow> nat \<Rightarrow> (bool \<times> nat) option" where
  "canonicalWalk cache finalized toRoot cap cur depth =
     (if Root cur = toRoot then Some (True, depth)
      else if 0 < cap \<and> cap \<le> depth then Some (False, 0)
      else if Slot cur \<le> finalized then Some (False, 0)
      else (case GetParentRoot cur of
              None \<Rightarrow> Some (False, 0)
            | Some parent \<Rightarrow>
                (case getBlockByRoot cache parent of
                   None \<Rightarrow> Some (False, 0)
                 | Some p \<Rightarrow> canonicalWalk cache finalized toRoot cap p (Suc depth))))"

text \<open>
  Modelled from the spec: the entry of \<open>getCanonicalDistance\<close>, which looks up the block
  of \<open>from_root\<close> and starts the walk there; an unknown root is not reachable.
\<close>

definition getCanonicalDistance :: "Indexer \<Rightarrow> Root \<Rightarrow> Root \<Rightarrow> nat \<Rightarrow> (bool \<times> nat) option" where
  "getCanonicalDistance ix fromRoot toRoot cap =
     (case getBlockByRoot (blockCache ix) fromRoot of
        None \<Rightarrow> Some (False, 0)
      | Some b \<Rightarrow> canonicalWalk (blockCache ix) (finalizedSlot ix) toRoot cap b 0)"

text \<open>
  Modelled from the spec: \<open>newFork\<close> is not among the sources. The spec gives a new fork
  the base, the leaf and the parent fork it is created with (fork 0 when there is none),
  and an id from a counter in memory that only grows.
\<close>

definition newFork :: "Block \<Rightarrow> Block \<Rightarrow> Fork option \<Rightarrow> Indexer \<Rightarrow> Fork \<times> Indexer" where
  "newFork baseBlock leafBlock parent ix =
     (\<lparr> forkId = forkIdCounter ix,
        baseSlot = Slot baseBlock, baseRoot = Root baseBlock,
        leafSlot = Slot leafBlock, leafRoot = Root leafBlock,
        parentFork = (case parent of None \<Rightarrow> 0 | Some p \<Rightarrow> forkId p) \<rparr>,
      ix\<lparr>forkIdCounter := Suc (forkIdCounter ix)\<rparr>)"

text \<open>The 32 bytes of a root, first byte first (the slice \<open>root[:]\<close>).\<close>

definition rootBytes :: "Root \<Rightarrow> bytes" where
  "rootBytes r = map (\<lambda>i. ucast (drop_bit (8 * (31 - i)) r)) [0..<32]"

text \<open>Modelled from the spec: \<open>Fork.toDbFork\<close> is not among the sources; it copies the six fields.\<close>

definition toDbFork :: "Fork \<Rightarrow> dbFork" where
  "toDbFork f = \<lparr> ForkId = forkId f, BaseSlot = baseSlot f, BaseRoot = rootBytes (baseRoot f),
                  LeafSlot = leafSlot f, LeafRoot = rootBytes (leafRoot f), ParentFork = parentFork f \<rparr>"

definition getForkById :: "Indexer \<Rightarrow> ForkKey \<Rightarrow> Fork option" where
  "getForkById ix fid = map_of (forkMap ix) fid"

definition addFork :: "Fork \<Rightarrow> Indexer \<Rightarrow> Indexer" where
  "addFork fork ix = ix\<lparr>forkMap := AList.update (forkId fork) fork (forkMap ix)\<rparr>"

text \<open>
  The orders in which one \<open>range\<close> over the fork map may yield its entries: every entry
  once, in any order.
\<close>

definition forkRange :: "Indexer \<Rightarrow> (ForkKey \<times> Fork) list \<Rightarrow> bool" where
  "forkRange ix forks \<longleftrightarrow> distinct (map fst forks) \<and> set forks = set (forkMap ix)"

text \<open>
  \<open>getClosestFork\<close>: the loop over the fork map, with the closest fork and its distance
  so far. \<open>None\<close> is a call that does not return. The call ranges over the fork map once;
  \<open>forks\<close> is the order in which that range yields the entries, given by the caller for
  each call, so that two calls need not meet the forks in the same order. Of two forks at
  the same distance the one met first is returned.
\<close>

fun getClosestFork_loop ::
  "Indexer \<Rightarrow> Block \<Rightarrow> (ForkKey \<times> Fork) list \<Rightarrow> Fork option \<Rightarrow> nat \<Rightarrow> Fork option option" where
  "getClosestFork_loop ix blk [] closestFork closestDistance = Some closestFork"
| "getClosestFork_loop ix blk ((k, fork) # forks) closestFork closestDistance =
     (case getCanonicalDistance ix (leafRoot fork) (Root blk) closestDistance of
        None \<Rightarrow> None
      | Some (isInFork, distance) \<Rightarrow>
          if \<not> isInFork
          then getClosestFork_loop ix blk forks closestFork closestDistance
          else if closestFork = None \<or> distance < closestDistance
          then getClosestFork_loop ix blk forks (Some fork) distance
          else getClosestFork_loop ix blk forks closestFork closestDistance)"

definition getClosestFork :: "(ForkKey \<times> Fork) list \<Rightarrow> Indexer \<Rightarrow> Block \<Rightarrow> Fork option option" where
  "getClosestFork forks ix blk = getClosestFork_loop ix blk forks None 0"

text \<open>
  \<open>checkForkDistance\<close>. The loop state is the two blocks, the two distances, the two leaf
  blocks and the map of the roots seen. The result is the five values returned (nil
  pointers are \<open>None\<close>) and the map, which the caller keeps using.
\<close>

type_synonym forkDistance = "Block option \<times> nat \<times> Block option \<times> nat \<times> Block option"

definition parentBlock :: "Block list \<Rightarrow> Block \<Rightarrow> Block option" where
  "parentBlock cache b =
     (case GetParentRoot b of None \<Rightarrow> None | Some parent \<Rightarrow> getBlockByRoot cache parent)"

partial_function (option) checkForkDistance_loop ::
  "Block list \<Rightarrow> nat \<Rightarrow> Block \<Rightarrow> Block \<Rightarrow> nat \<Rightarrow> Block \<Rightarrow> nat \<Rightarrow> Block \<Rightarrow> Root set
     \<Rightarrow> (forkDistance \<times> Root set) option" where
  "checkForkDistance_loop cache finalized block1 block2 block1Distance leafBlock1
       block2Distance leafBlock2 parentsMap =
     (if Root block1 = Root block2
      then Some ((Some block1, block1Distance, Some leafBlock1, block2Distance, Some leafBlock2),
                 insert (Root block2) (insert (Root block1) parentsMap))
      else if Slot block1 \<le> finalized \<or> Slot block2 \<le> finalized
      then Some ((None, 0, None, 0, None), insert (Root block2) (insert (Root block1) parentsMap))
      else
        (case (if Slot block1 \<le> Slot block2
               then (case parentBlock cache block2 of
                       None \<Rightarrow> None
                     | Some p \<Rightarrow> Some (p, Suc block2Distance, block2))
               else Some (block2, block2Distance, leafBlock2)) of
           None \<Rightarrow> Some ((None, 0, None, 0, None),
                          insert (Root block2) (insert (Root block1) parentsMap))
         | Some (block2', block2Distance', leafBlock2') \<Rightarrow>
             (case (if Slot block2' \<le> Slot block1
                    then (case parentBlock cache block1 of
                            None \<Rightarrow> None
                          | Some p \<Rightarrow> Some (p, Suc block1Distance, block1))
                    else Some (block1, block1Distance, leafBlock1)) of
                None \<Rightarrow> Some ((None, 0, None, 0, None),
                               insert (Root block2) (insert (Root block1) parentsMap))
              | Some (block1', block1Distance', leafBlock1') \<Rightarrow>
                  checkForkDistance_loop cache finalized block1' block2' block1Distance' leafBlock1'
                    block2Distance' leafBlock2'
                    (insert (Root block2) (insert (Root block1) parentsMap)))))"

definition checkForkDistance ::
  "Indexer \<Rightarrow> Block \<Rightarrow> Block \<Rightarrow> Root set \<Rightarrow> (forkDistance \<times> Root set) option" where
  "checkForkDistance ix block1 block2 parentsMap =
     checkForkDistance_loop (blockCache ix) (finalizedSlot ix) block1 block2 0 block1 0 block2 parentsMap"

text \<open>The assignment \<open>block.forkId = fork.forkId\<close> through the pointer held by the cache.\<close>

definition setBlockForkId :: "Root \<Rightarrow> ForkKey \<Rightarrow> Indexer \<Rightarrow> Indexer" where
  "setBlockForkId root fid ix =
     ix\<lparr>blockCache := map (\<lambda>b. if Root b = root then b\<lparr>Block.forkId := fid\<rparr> else b) (blockCache ix)\<rparr>"

text \<open>
  \<open>updateNewForkBlocks\<close>: the loop over the blocks with the roots collected so far. The
  result is the slice returned (\<open>None\<close> for the nil slice) and the indexer.
\<close>

fun updateNewForkBlocks_loop ::
  "Fork \<Rightarrow> Block list \<Rightarrow> bytes list \<Rightarrow> Indexer \<Rightarrow> (bytes list option \<times> Indexer) option" where
  "updateNewForkBlocks_loop fork [] updatedRoots ix = Some (Some updatedRoots, ix)"
| "updateNewForkBlocks_loop fork (b # bs) updatedRoots ix =
     (if Slot b \<le> baseSlot fork then Some (None, ix)
      else (case getCanonicalDistance ix (leafRoot fork) (Root b) 0 of
              None \<Rightarrow> None
            | Some (isInFork, distance) \<Rightarrow>
                if \<not> isInFork then updateNewForkBlocks_loop fork bs updatedRoots ix
                else updateNewForkBlocks_loop fork bs (updatedRoots @ [rootBytes (Root b)])
                       (setBlockForkId (Root b) (forkId fork) ix)))"

definition updateNewForkBlocks :: "Fork \<Rightarrow> Block list \<Rightarrow> Indexer \<Rightarrow> (bytes list option \<times> Indexer) option" where
  "updateNewForkBlocks fork bs ix = updateNewForkBlocks_loop fork bs [] ix"

text \<open>
  \<open>sort.Slice\<close> with the comparison \<open>forkBlocks[i].Slot > forkBlocks[j].Slot\<close>, as the
  insertion sort Go runs on short slices: each block moves left past the blocks of smaller
  slot.
\<close>

fun insertBySlot :: "Block \<Rightarrow> Block list \<Rightarrow> Block list" where
  "insertBySlot x [] = [x]"
| "insertBySlot x (y # ys) = (if Slot x > Slot y then x # y # ys else y # insertBySlot x ys)"

definition sortBySlotDesc :: "Block list \<Rightarrow> Block list" where
  "sortBySlotDesc bs = foldl (\<lambda>sorted b. insertBySlot b sorted) [] bs"

text \<open>
  The statements of the transaction that \<open>processBlock\<close> hands to \<open>db.RunDBTransaction\<close>,
  in order; the error returned is the one of the transaction.
\<close>

datatype txOp =
  TxInsertFork dbFork
| TxUpdateUnfinalizedBlockForkId "bytes list option" nat

text \<open>
  The branch of \<open>processBlock\<close> taken when a fork is detected: two forks, each added to
  the cache and given its blocks, then the transaction.
\<close>

definition splitFork ::
  "Block \<Rightarrow> Block \<Rightarrow> Block \<Rightarrow> Fork option \<Rightarrow> Block list \<Rightarrow> Indexer
     \<Rightarrow> ((ForkKey \<times> txOp list) \<times> Indexer) option" where
  "splitFork baseBlock leaf1 leaf2 parent forkBlocks ix =
     (case newFork baseBlock leaf1 parent ix of
        (fork1, ix1) \<Rightarrow>
          (case updateNewForkBlocks fork1 forkBlocks (addFork fork1 ix1) of
             None \<Rightarrow> None
           | Some (fork1Roots, ix2) \<Rightarrow>
               (case newFork baseBlock leaf2 parent ix2 of
                  (fork2, ix3) \<Rightarrow>
                    (case updateNewForkBlocks fork2 forkBlocks (addFork fork2 ix3) of
                       None \<Rightarrow> None
                     | Some (fork2Roots, ix4) \<Rightarrow>
                         Some ((forkId fork1,
                                [TxInsertFork (toDbFork fork1),
                                 TxUpdateUnfinalizedBlockForkId fork1Roots (forkId fork1),
                                 TxInsertFork (toDbFork fork2),
                                 TxUpdateUnfinalizedBlockForkId fork2Roots (forkId fork2)]),
                               ix4)))))"

text \<open>The loop of \<open>processBlock\<close> over the sorted blocks of the parent fork.\<close>

fun processBlock_loop ::
  "Indexer \<Rightarrow> Block \<Rightarrow> Fork option \<Rightarrow> ForkKey \<Rightarrow> Block list \<Rightarrow> Block list \<Rightarrow> Root set
     \<Rightarrow> ((ForkKey \<times> txOp list) \<times> Indexer) option" where
  "processBlock_loop ix blk parent parentForkId forkBlocks [] parentsMap =
     Some ((parentForkId, []), ix)"
| "processBlock_loop ix blk parent parentForkId forkBlocks (forkBlock # rest) parentsMap =
     (if Root forkBlock \<in> parentsMap
      then processBlock_loop ix blk parent parentForkId forkBlocks rest parentsMap
      else (case checkForkDistance ix blk forkBlock parentsMap of
              None \<Rightarrow> None
            | Some ((Some baseBlock, distance1, Some leaf1, distance2, Some leaf2), parentsMap') \<Rightarrow>
                if distance1 > minForkDistance ix \<and> distance2 > minForkDistance ix
                then splitFork baseBlock leaf1 leaf2 parent forkBlocks ix
                else processBlock_loop ix blk parent parentForkId forkBlocks rest parentsMap'
            | Some (_, parentsMap') \<Rightarrow>
                processBlock_loop ix blk parent parentForkId forkBlocks rest parentsMap'))"

text \<open>
  \<open>processBlock\<close>: the fork key returned and the statements of the transaction (none when
  no fork is detected), and the indexer after the call. The first argument is the order
  in which the range of \<open>getClosestFork\<close> yields the forks in this call.
\<close>

definition processBlock ::
  "(ForkKey \<times> Fork) list \<Rightarrow> Indexer \<Rightarrow> Block \<Rightarrow> ((ForkKey \<times> txOp list) \<times> Indexer) option" where
  "processBlock forks ix blk =
     (case getClosestFork forks ix blk of
        None \<Rightarrow> None
      | Some parent \<Rightarrow>
          (let parentForkId = (case parent of None \<Rightarrow> 0 | Some p \<Rightarrow> forkId p);
               forkBlocks = sortBySlotDesc (getForkBlocks (blockCache ix) parentForkId)
           in processBlock_loop ix blk parent parentForkId forkBlocks forkBlocks {}))"

subsection \<open>Two block trees to run fork processing on\<close>

text \<open>A cached block whose header has arrived: its parent root is the one of the header.\<close>

definition cachedBlock :: "Root \<Rightarrow> nat \<Rightarrow> Root \<Rightarrow> Block" where
  "cachedBlock root slot parent =
     (newBlock root slot)
       \<lparr> headerChan := ClosedChan,
         header := Some \<lparr> Message = \<lparr> ParentRoot = parent, StateRoot = 0, BodyRoot = 0 \<rparr> \<rparr> \<rparr>"

text \<open>
  Scenario 3 of the spec: the chain A@100, B@101, C@102, D@103, E@104 and the branch
  C'@102, D'@103, E'@104 from B. The parent of A is not cached; slot 64 is finalized.
\<close>

definition blkA :: Block where "blkA = cachedBlock 0xA0 100 0x99"
definition blkB :: Block where "blkB = cachedBlock 0xB0 101 0xA0"
definition blkC :: Block where "blkC = cachedBlock 0xC0 102 0xB0"
definition blkD :: Block where "blkD = cachedBlock 0xD0 103 0xC0"
definition blkE :: Block where "blkE = cachedBlock 0xE0 104 0xD0"
definition blkC' :: Block where "blkC' = cachedBlock 0xC1 102 0xB0"
definition blkD' :: Block where "blkD' = cachedBlock 0xD1 103 0xC1"
definition blkE' :: Block where "blkE' = cachedBlock 0xE1 104 0xD1"

definition scenario3 :: "nat \<Rightarrow> Indexer" where
  "scenario3 minDistance =
     \<lparr> blockCache = [blkA, blkB, blkC, blkD, blkE, blkC', blkD', blkE'],
       forkMap = [], forkIdCounter = 1, minForkDistance = minDistance, finalizedSlot = 64 \<rparr>"

text \<open>
  Scenario 3 after the split at a minimal fork distance of 2: the forks of C' and of C,
  both with base B, and the two blocks labelled with them.
\<close>

definition forkC' :: Fork where
  "forkC' = \<lparr> forkId = 1, baseSlot = 101, baseRoot = Root blkB,
               leafSlot = 102, leafRoot = Root blkC', parentFork = 0 \<rparr>"

definition forkC :: Fork where
  "forkC = \<lparr> forkId = 2, baseSlot = 101, baseRoot = Root blkB,
              leafSlot = 102, leafRoot = Root blkC, parentFork = 0 \<rparr>"

definition scenario3Split :: Indexer where
  "scenario3Split =
     \<lparr> blockCache = [blkA, blkB, blkC\<lparr>Block.forkId := 2\<rparr>, blkD, blkE,
                      blkC'\<lparr>Block.forkId := 1\<rparr>, blkD', blkE'],
       forkMap = [(1, forkC'), (2, forkC)],
       forkIdCounter = 3, minForkDistance = 2, finalizedSlot = 64 \<rparr>"

text \<open>
  A tree with a fork inside a fork. From B@101 the chain X1@102, X2@103, X3@110, and
  the block Y1@102 with two chains on top of it: Y2a@103, Y3a@104, Y4a@105 and Y2b@103,
  Y3b@104, Y4b@105. No block has been given a fork yet; the minimal fork distance is 2.
\<close>

definition blkY4b :: Block where "blkY4b = cachedBlock 0x4B 105 0x3B"

definition nestedForks :: Indexer where
  "nestedForks =
     \<lparr> blockCache =
         [cachedBlock 0xA0 100 0x99, cachedBlock 0xB0 101 0xA0,
          cachedBlock 0x01 102 0xB0, cachedBlock 0x02 103 0x01,
          cachedBlock 0x10 102 0xB0,
          cachedBlock 0x2A 103 0x10, cachedBlock 0x3A 104 0x2A, cachedBlock 0x4A 105 0x3A,
          cachedBlock 0x2B 103 0x10, cachedBlock 0x3B 104 0x2B,
          cachedBlock 0x03 110 0x02, blkY4b],
       forkMap = [], forkIdCounter = 1, minForkDistance = 2, finalizedSlot = 64 \<rparr>"

section \<open>Fields acquired once: what the header and the body setters do\<close>

lemma SetHeader_first:
  "SetHeader (Some h) (newBlock r s) = Inr ((newBlock r s)\<lparr>header := Some h, headerChan := ClosedChan\<rparr>)"
  by (simp add: SetHeader_def newBlock_def)

text \<open>
  C7 (the header half fails in the code). Two calls of \<open>SetHeader\<close> with headers that are
  not nil: the first stores the header and closes the notification channel, the second
  stores again and closes the closed channel, which is a panic in Go. A call with a nil
  header after that replaces the stored header by nil. So the header is not set at most
  once and a second close of the channel is reached.
\<close>

theorem SetHeader_twice_closes_twice:
  "(case SetHeader (Some h1) (newBlock r s) of
      Inl p \<Rightarrow> False
    | Inr b \<Rightarrow> header b = Some h1 \<and> headerChan b = ClosedChan
               \<and> SetHeader (Some h2) b = Inl CloseOfClosedChannel
               \<and> SetHeader None b = Inr (b\<lparr>header := None\<rparr>))"
  by (simp add: SetHeader_def newBlock_def)

text \<open>
  The same through \<open>EnsureHeader\<close>: a loader that returns a nil header without an error
  leaves the header nil and closes the channel, so the next call loads and closes again.
\<close>

lemma EnsureHeader_nil_loader_closes_twice:
  "(case EnsureHeader (Inr None) (newBlock r s) of
      Inl p \<Rightarrow> False
    | Inr (e, b) \<Rightarrow> e = None \<and> header b = None \<and> headerChan b = ClosedChan
               \<and> EnsureHeader (Inr None) b = Inl CloseOfClosedChannel)"
  by (simp add: EnsureHeader_def newBlock_def)

text \<open>
  The body setters guard the close: once the channel has been closed it is nil, and no
  later \<open>SetBlock\<close> or \<open>EnsureBlock\<close> closes it again. The body itself is still replaced by
  a second \<open>SetBlock\<close>.
\<close>

lemma closeBlockChan_no_double_close:
  "blockChan b \<noteq> ClosedChan \<Longrightarrow>
     (\<exists>b'. closeBlockChan b = Inr b' \<and> blockChan b' = NilChan \<and> block b' = block b)"
  by (cases "blockChan b") (simp_all add: closeBlockChan_def)

lemma SetBlock_never_closes_twice:
  "blockChan b \<noteq> ClosedChan \<Longrightarrow>
     (\<exists>b'. SetBlock (Some v) b = Inr b' \<and> blockChan b' = NilChan \<and> block b' = Some v)"
  using closeBlockChan_no_double_close [of "b\<lparr>blockIndex := Some \<lparr> Graffiti = bodyGraffiti v,
      ExecutionExtraData = bodyExecutionExtraData v, ExecutionHash = bodyExecutionBlockHash v,
      ExecutionNumber = bodyExecutionBlockNumber v \<rparr>, block := Some v\<rparr>"]
  by (auto simp: SetBlock_def setBlockIndex_def)

lemma SetBlock_twice_replaces_body:
  "(case SetBlock (Some v1) (newBlock r s) of
      Inl p \<Rightarrow> False
    | Inr b \<Rightarrow> block b = Some v1 \<and> blockChan b = NilChan
               \<and> (case SetBlock (Some v2) b of
                     Inl p \<Rightarrow> False
                   | Inr b' \<Rightarrow> block b' = Some v2 \<and> blockChan b' = NilChan))"
  by (simp add: SetBlock_def setBlockIndex_def closeBlockChan_def newBlock_def)

section \<open>Reconnect backoff of the event stream\<close>



















section \<open>Deposit indexer: persisting, progress and decode errors\<close>

lemma persist_commit_failure:
  "persistFinalizedDepositTxs eng (Some FailCommit) toBlock deposits st d
     = (Some ''error committing db transaction'', st\<lparr>FinalBlock := toBlock\<rparr>, d)"
  by (simp add: persistFinalizedDepositTxs_def Let_def)

lemma persist_state_failure:
  "persistFinalizedDepositTxs eng (Some FailSetState) toBlock deposits st d
     = (Some ''error while updating deposit state'', st\<lparr>FinalBlock := toBlock\<rparr>, d)"
  by (simp add: persistFinalizedDepositTxs_def Let_def)

lemma persist_insert_failure:
  "persistFinalizedDepositTxs eng (Some FailInsert) toBlock deposits st d
     = (Some ''error while inserting deposit txs'', st, d)"
  by (simp add: persistFinalizedDepositTxs_def)

lemma collect_good:
  "collectDeposits (sampleIndexer s) (clientWith ls) None None [] [goodLog]
    = Inr [\<lparr> Index = 0, BlockNumber = 50, BlockTime = 0, BlockRoot = replicate 32 0x33,
              PublicKey = replicate 48 0xaa, WithdrawalCredentials = replicate 32 0xbb,
              Amount = 32000000000, Signature = replicate 96 0xcc,
              ValidSignature = False, Orphaned = False,
              TxHash = replicate 32 0x22, TxSender = replicate 20 0x0a, TxTarget = replicate 20 0x0b \<rparr>]"
  by (simp add: sampleIndexer_def clientWith_def goodLog_def depositTopic_def sampleAbi_def goodData_def
      loadTxDetails_def txParties_def sampleTx_def buildDepositTx_def LittleEndian_Uint64_def
      word_rcat_def)

lemma sample_fields:
  "batchSize (sampleIndexer s) = 10000"
  "state (sampleIndexer s) = s"
  "depositEventTopic (sampleIndexer s) = depositTopic"
  "depositContractAbi (sampleIndexer s) = sampleAbi"
  "(sampleIndexer s)\<lparr>state := t\<rparr> = sampleIndexer t"
  "FilterLogs (clientWith ls) a b = Inr ls"
  "TransactionByHash (clientWith ls) h = Inr sampleTx"
  by (simp_all add: sampleIndexer_def clientWith_def)

lemma topics_differ: "otherTopic \<noteq> depositTopic"
proof
  assume "otherTopic = depositTopic"
  then have "hd otherTopic = hd depositTopic" by simp
  then show False by (simp add: otherTopic_def depositTopic_def)
qed

lemma batch_good_commit_fails:
  "processBatch eng (clientWith [goodLog]) (\<lambda>b. Some FailCommit) (sampleIndexer s) 100 \<lparr>FinalBlock = 0\<rparr> emptyDb
     = (Some (Error ''could not persist deposit txs''), \<lparr>FinalBlock = 100\<rparr>, emptyDb)"
  by (simp add: processBatch_def sample_fields collect_good persist_commit_failure
      del: collectDeposits.simps)

text \<open>
  C3 (fails in the code). A batch with one deposit, and a store that fails at commit.
  First cycle: the transaction is rolled back, so the store is unchanged, but the
  \<open>FinalBlock\<close> in memory has already been set to the end of the batch (block 100).
  Second cycle, with a healthy store and the same finalized block: the state in memory is
  not reloaded, the indexer sees nothing left to do and returns; the deposit of the batch
  is never stored. The same holds when the state write fails
  (\<open>persist_state_failure\<close>); only a failed insert leaves the state in memory
  alone (\<open>persist_insert_failure\<close>).
\<close>

theorem commit_failure_skips_batch:
  "runDepositIndexer eng (Some (clientWith [goodLog])) (\<lambda>b. Some FailCommit) (Inr 100)
       (sampleIndexer None) emptyDb
     = Some (Some (Error ''could not persist deposit txs''),
             sampleIndexer (Some \<lparr>FinalBlock = 100\<rparr>), emptyDb)
   \<and> runDepositIndexer eng (Some (clientWith [goodLog])) (\<lambda>b. None) (Inr 100)
       (sampleIndexer (Some \<lparr>FinalBlock = 100\<rparr>)) emptyDb
     = Some (None, sampleIndexer (Some \<lparr>FinalBlock = 100\<rparr>), emptyDb)"
proof -
  have load: "loadState (sampleIndexer None) emptyDb = sampleIndexer (Some \<lparr>FinalBlock = 0\<rparr>)"
    by (simp add: loadState_def GetExplorerState_def emptyDb_def sampleIndexer_def)
  have loop: "processFinalizedBlocks_loop eng (clientWith [goodLog]) (\<lambda>b. Some FailCommit)
                (sampleIndexer (Some \<lparr>FinalBlock = 0\<rparr>)) 100 \<lparr>FinalBlock = 0\<rparr> emptyDb
              = Some (Some (Error ''could not persist deposit txs''), \<lparr>FinalBlock = 100\<rparr>, emptyDb)"
    by (subst processFinalizedBlocks_loop.simps) (simp add: batch_good_commit_fails)
  have first: "runDepositIndexer eng (Some (clientWith [goodLog])) (\<lambda>b. Some FailCommit) (Inr 100)
       (sampleIndexer None) emptyDb
     = Some (Some (Error ''could not persist deposit txs''),
             sampleIndexer (Some \<lparr>FinalBlock = 100\<rparr>), emptyDb)"
    unfolding runDepositIndexer_def
    by (simp add: load processFinalizedBlocks_def loop sample_fields)
  have second: "runDepositIndexer eng (Some (clientWith [goodLog])) (\<lambda>b. None) (Inr 100)
       (sampleIndexer (Some \<lparr>FinalBlock = 100\<rparr>)) emptyDb
     = Some (None, sampleIndexer (Some \<lparr>FinalBlock = 100\<rparr>), emptyDb)"
    unfolding runDepositIndexer_def by (simp add: sample_fields)
  from first second show ?thesis by simp
qed

text \<open>
  A batch that yields no deposit returns from \<open>processBatch\<close> with the state unchanged,
  and a loop whose body changes nothing while its condition holds never returns.
\<close>

lemma loop_result_not_stuck:
  "processFinalizedBlocks_loop eng c faults ds n st d = Some r \<Longrightarrow>
     \<not> (FinalBlock st < n \<and> processBatch eng c faults ds n st d = (None, st, d))"
  by (rule processFinalizedBlocks_loop.raw_induct
        [where P = "\<lambda>eng c faults ds n st d r.
                      \<not> (FinalBlock st < n \<and> processBatch eng c faults ds n st d = (None, st, d))"])
     (auto split: if_splits prod.splits option.splits)

lemma loop_stuck:
  "FinalBlock st < n \<Longrightarrow> processBatch eng c faults ds n st d = (None, st, d) \<Longrightarrow>
     processFinalizedBlocks_loop eng c faults ds n st d = None"
  using loop_result_not_stuck [of eng c faults ds n st d]
  by (cases "processFinalizedBlocks_loop eng c faults ds n st d") auto

lemma batch_without_deposits:
  "FilterLogs c (FinalBlock st)
      (if FinalBlock st + word_of_int (batchSize ds) > n then n
       else FinalBlock st + word_of_int (batchSize ds)) = Inr logs \<Longrightarrow>
   collectDeposits ds c None None [] logs = Inr [] \<Longrightarrow>
   processBatch eng c faults ds n st d = (None, st, d)"
  by (simp add: processBatch_def Let_def)

text \<open>
  C4 (fails in the code). The indexer at block 0, the finalized block 100, and an
  execution client whose logs for the range hold no deposit event (no log at all, or one
  log of another topic): \<open>FinalBlock\<close> is only written when a batch is persisted, so
  it stays at 0 and \<open>processFinalizedBlocks\<close> does not return.
\<close>

theorem empty_batch_never_advances:
  "processFinalizedBlocks eng (Some (clientWith [])) (\<lambda>b. None) 100
      (sampleIndexer (Some \<lparr>FinalBlock = 0\<rparr>)) emptyDb = None
   \<and> processFinalizedBlocks eng (Some (clientWith [otherLog])) (\<lambda>b. None) 100
      (sampleIndexer (Some \<lparr>FinalBlock = 0\<rparr>)) emptyDb = None"
proof -
  have skip: "collectDeposits (sampleIndexer s) c None None [] [otherLog] = Inr []" for s c
    by (simp add: otherLog_def topics_differ sample_fields)
  have b0: "processBatch eng (clientWith []) (\<lambda>b. None) (sampleIndexer (Some \<lparr>FinalBlock = 0\<rparr>)) 100
              \<lparr>FinalBlock = 0\<rparr> emptyDb = (None, \<lparr>FinalBlock = 0\<rparr>, emptyDb)"
    by (rule batch_without_deposits [where logs = "[]"]) (simp_all add: sample_fields)
  have b1: "processBatch eng (clientWith [otherLog]) (\<lambda>b. None) (sampleIndexer (Some \<lparr>FinalBlock = 0\<rparr>)) 100
              \<lparr>FinalBlock = 0\<rparr> emptyDb = (None, \<lparr>FinalBlock = 0\<rparr>, emptyDb)"
    by (rule batch_without_deposits [where logs = "[otherLog]"]) (simp_all add: sample_fields skip del: collectDeposits.simps)
  have l0: "processFinalizedBlocks_loop eng (clientWith []) (\<lambda>b. None)
              (sampleIndexer (Some \<lparr>FinalBlock = 0\<rparr>)) 100 \<lparr>FinalBlock = 0\<rparr> emptyDb = None"
    by (rule loop_stuck [OF _ b0]) simp
  have l1: "processFinalizedBlocks_loop eng (clientWith [otherLog]) (\<lambda>b. None)
              (sampleIndexer (Some \<lparr>FinalBlock = 0\<rparr>)) 100 \<lparr>FinalBlock = 0\<rparr> emptyDb = None"
    by (rule loop_stuck [OF _ b1]) simp
  show ?thesis
    by (simp add: processFinalizedBlocks_def l0 l1 sample_fields)
qed

lemma collect_bad_first:
  "collectDeposits (sampleIndexer s) c None None [] [badLog, goodLog]
     = Inl (Error ''error decoding deposit event'')"
  by (simp add: badLog_def sample_fields sampleAbi_def goodData_def)

lemma insert_first_row: "InsertDepositTxs eng [dtx] [] = [dtx]"
  by (simp add: InsertDepositTxs_def)

text \<open>
  C8 as stated fails: a batch whose first log has the deposit topic and a payload that
  does not decode, followed by a well-formed deposit log. The batch ends with the decode
  error, nothing is stored and \<open>FinalBlock\<close> stays; the same batch without the bad
  log stores one row.
\<close>

theorem decode_error_aborts_batch:
  "processBatch DBEnginePgsql (clientWith [badLog, goodLog]) (\<lambda>b. None)
      (sampleIndexer (Some \<lparr>FinalBlock = 0\<rparr>)) 100 \<lparr>FinalBlock = 0\<rparr> emptyDb
     = (Some (Error ''error decoding deposit event''), \<lparr>FinalBlock = 0\<rparr>, emptyDb)
   \<and> fst (processBatch DBEnginePgsql (clientWith [goodLog]) (\<lambda>b. None)
      (sampleIndexer (Some \<lparr>FinalBlock = 0\<rparr>)) 100 \<lparr>FinalBlock = 0\<rparr> emptyDb) = None
   \<and> length (deposit_txs (snd (snd (processBatch DBEnginePgsql (clientWith [goodLog]) (\<lambda>b. None)
      (sampleIndexer (Some \<lparr>FinalBlock = 0\<rparr>)) 100 \<lparr>FinalBlock = 0\<rparr> emptyDb)))) = 1"
  by (simp add: processBatch_def sample_fields collect_bad_first collect_good
      persistFinalizedDepositTxs_def SetExplorerState_def emptyDb_def insert_first_row Let_def
      del: collectDeposits.simps)

lemma processBatch_collect_failure:
  "FilterLogs c (FinalBlock st)
      (if FinalBlock st + word_of_int (batchSize ds) > n then n
       else FinalBlock st + word_of_int (batchSize ds)) = Inr logs \<Longrightarrow>
   collectDeposits ds c None None [] logs = Inl f \<Longrightarrow>
   processBatch eng c faults ds n st d = (Some f, st, d)"
  by (simp add: processBatch_def Let_def)

text \<open>
  C8, amended. A log whose first topic is not the deposit topic is skipped and the rest
  of the batch is processed as if it were not there. A log with the deposit topic whose
  payload does not decode ends the loop over the logs with an error; and a batch whose
  logs end in an error makes \<open>processFinalizedBlocks\<close> return that error with the
  state and the store as they were before the batch.
\<close>

theorem decode_error_policy:
  "logTopics lg = t # ts \<Longrightarrow>
     (t \<noteq> depositEventTopic ds \<longrightarrow>
        collectDeposits ds c h x acc (lg # logs) = collectDeposits ds c h x acc logs)
   \<and> (t = depositEventTopic ds \<and> depositContractAbi ds (logData lg) = Inl e \<longrightarrow>
        collectDeposits ds c h x acc (lg # logs) = Inl (Error ''error decoding deposit event''))
   \<and> (FinalBlock st < n
        \<and> FilterLogs c (FinalBlock st)
            (if FinalBlock st + word_of_int (batchSize ds) > n then n
             else FinalBlock st + word_of_int (batchSize ds)) = Inr batch
        \<and> collectDeposits ds c None None [] batch = Inl f \<longrightarrow>
        processFinalizedBlocks_loop eng c faults ds n st d = Some (Some f, st, d))"
proof (intro conjI impI)
  assume "logTopics lg = t # ts" and "t \<noteq> depositEventTopic ds"
  then show "collectDeposits ds c h x acc (lg # logs) = collectDeposits ds c h x acc logs"
    by simp
next
  assume "logTopics lg = t # ts"
    and "t = depositEventTopic ds \<and> depositContractAbi ds (logData lg) = Inl e"
  then show "collectDeposits ds c h x acc (lg # logs) = Inl (Error ''error decoding deposit event'')"
    by simp
next
  assume a: "FinalBlock st < n
        \<and> FilterLogs c (FinalBlock st)
            (if FinalBlock st + word_of_int (batchSize ds) > n then n
             else FinalBlock st + word_of_int (batchSize ds)) = Inr batch
        \<and> collectDeposits ds c None None [] batch = Inl f"
  then have "processBatch eng c faults ds n st d = (Some f, st, d)"
    by (simp add: processBatch_collect_failure)
  with a show "processFinalizedBlocks_loop eng c faults ds n st d = Some (Some f, st, d)"
    by (subst processFinalizedBlocks_loop.simps) simp
qed

theorem decode_error_policy_witness:
  "logTopics otherLog = otherTopic # []
   \<and> collectDeposits (sampleIndexer None) (clientWith []) None None [] (otherLog # [goodLog])
       = collectDeposits (sampleIndexer None) (clientWith []) None None [] [goodLog]
   \<and> logTopics badLog = depositTopic # []
   \<and> collectDeposits (sampleIndexer None) (clientWith []) None None [] (badLog # [goodLog])
       = Inl (Error ''error decoding deposit event'')
   \<and> processFinalizedBlocks_loop DBEnginePgsql (clientWith [badLog, goodLog]) (\<lambda>b. None)
        (sampleIndexer (Some \<lparr>FinalBlock = 0\<rparr>)) 100 \<lparr>FinalBlock = 0\<rparr> emptyDb
       = Some (Some (Error ''error decoding deposit event''), \<lparr>FinalBlock = 0\<rparr>, emptyDb)"
proof -
  have t1: "logTopics otherLog = otherTopic # []" by (simp add: otherLog_def)
  have t2: "logTopics badLog = depositTopic # []" by (simp add: badLog_def)
  have bad: "depositContractAbi (sampleIndexer s) (logData badLog) = Inl ''abi: cannot unmarshal''" for s
    by (simp add: sample_fields sampleAbi_def badLog_def goodData_def)
  note w1 = decode_error_policy [OF t1, where ds = "sampleIndexer None" and c = "clientWith []"
      and h = None and x = None and acc = "[]" and logs = "[goodLog]"]
  note w2 = decode_error_policy [OF t2, where ds = "sampleIndexer None" and c = "clientWith []"
      and h = None and x = None and acc = "[]" and logs = "[goodLog]"
      and e = "''abi: cannot unmarshal''"]
  note w3 = decode_error_policy [OF t2, where ds = "sampleIndexer (Some \<lparr>FinalBlock = 0\<rparr>)"
      and c = "clientWith [badLog, goodLog]" and st = "\<lparr>FinalBlock = 0\<rparr>" and n = 100
      and batch = "[badLog, goodLog]" and f = "Error ''error decoding deposit event''"
      and eng = DBEnginePgsql and faults = "\<lambda>b. None" and d = emptyDb]
  have c1: "collectDeposits (sampleIndexer None) (clientWith []) None None [] (otherLog # [goodLog])
       = collectDeposits (sampleIndexer None) (clientWith []) None None [] [goodLog]"
    using w1 by (simp add: sample_fields topics_differ del: collectDeposits.simps)
  have c2: "collectDeposits (sampleIndexer None) (clientWith []) None None [] (badLog # [goodLog])
       = Inl (Error ''error decoding deposit event'')"
    using w2 bad by (simp add: sample_fields del: collectDeposits.simps)
  have c3: "processFinalizedBlocks_loop DBEnginePgsql (clientWith [badLog, goodLog]) (\<lambda>b. None)
        (sampleIndexer (Some \<lparr>FinalBlock = 0\<rparr>)) 100 \<lparr>FinalBlock = 0\<rparr> emptyDb
       = Some (Some (Error ''error decoding deposit event''), \<lparr>FinalBlock = 0\<rparr>, emptyDb)"
    using w3 collect_bad_first [of "Some \<lparr>FinalBlock = 0\<rparr>" "clientWith [badLog, goodLog]"]
    by (simp add: sample_fields del: collectDeposits.simps)
  from t1 t2 c1 c2 c3 show ?thesis by simp
qed

section \<open>Store statements: forks and unfinalized blocks\<close>

text \<open>
  C5 (fails in the code for SQLite). The PostgreSQL statement of \<open>InsertFork\<close> targets
  \<open>forks\<close> with the six fork columns. The SQLite statement targets
  \<open>unfinalized_blocks\<close>, names nine columns (\<open>fork_id\<close> twice) and has six
  placeholders; whatever the tables hold, it is rejected, so no fork row is written.
\<close>

theorem InsertFork_sqlite_wrong_statement:
  "into_table (InsertFork_query DBEngineSqlite) = ''unfinalized_blocks''
   \<and> columns (InsertFork_query DBEngineSqlite) \<noteq> fork_columns
   \<and> length (columns (InsertFork_query DBEngineSqlite)) = 9
   \<and> placeholders (InsertFork_query DBEngineSqlite) = 6
   \<and> (\<exists>err. InsertFork DBEngineSqlite fork tx = Inl err)
   \<and> into_table (InsertFork_query DBEnginePgsql) = ''forks''
   \<and> columns (InsertFork_query DBEnginePgsql) = fork_columns"
  by (simp add: InsertFork_query_def InsertFork_def EngineQuery_def exec_insert_def fork_columns_def
      split: option.splits)

text \<open>On PostgreSQL a fork whose id is new becomes a row of \<open>forks\<close> with the six columns.\<close>

lemma InsertFork_pgsql_new_row:
  "InsertFork DBEnginePgsql fork sampleTables
     = Inr (sampleTables(''forks'' \<mapsto>
         \<lparr> tcolumns = fork_columns, tkey = [''fork_id''],
           trows = [map_of (zip fork_columns
                      [VInt (int (ForkId fork)), VInt (int (BaseSlot fork)), VBytes (BaseRoot fork),
                       VInt (int (LeafSlot fork)), VBytes (LeafRoot fork),
                       VInt (int (ParentFork fork))])] \<rparr>))"
  by (simp add: InsertFork_query_def InsertFork_def EngineQuery_def exec_insert_def fork_columns_def sampleTables_def
      Let_def)

lemma InsertFork_sqlite_sample:
  "InsertFork DBEngineSqlite fork sampleTables = Inl ''values and columns differ in number''"
  by (simp add: InsertFork_query_def InsertFork_def EngineQuery_def exec_insert_def sampleTables_def)

lemma same_key_root:
  "same_key [''root''] new r = (new ''root'' = r ''root'')"
  by (simp add: same_key_def)

text \<open>
  C10. On both engines, when \<open>unfinalized_blocks\<close> (primary key \<open>root\<close>, with the
  eight columns of the statement) already holds a row with the root of the block,
  \<open>InsertUnfinalizedBlock\<close> succeeds and leaves the tables as they were: no column of
  the stored row changes.
\<close>

theorem InsertUnfinalizedBlock_keeps_stored_row:
  assumes tbl: "tx ''unfinalized_blocks'' = Some t"
    and key: "tkey t = [''root'']"
    and cols: "list_all (\<lambda>c. c \<in> set (tcolumns t))
                 [''root'', ''slot'', ''header_ver'', ''header_ssz'', ''block_ver'', ''block_ssz'',
                  ''status'', ''fork_id'']"
    and stored: "r \<in> set (trows t)" "r ''root'' = Some (VBytes (ubRoot blk))"
  shows "InsertUnfinalizedBlock eng blk tx = Inr tx"
proof -
  let ?q = "InsertUnfinalizedBlock_query eng"
  let ?args = "[VBytes (ubRoot blk), VInt (int (ubSlot blk)), VInt (int (ubHeaderVer blk)),
        VBytes (ubHeaderSSZ blk), VInt (int (ubBlockVer blk)), VBytes (ubBlockSSZ blk),
        VInt (int (ubStatus blk)), VInt (int (ubForkId blk))]"
  have into: "into_table ?q = ''unfinalized_blocks''"
    by (cases eng) (simp_all add: InsertUnfinalizedBlock_query_def)
  have columns: "columns ?q = [''root'', ''slot'', ''header_ver'', ''header_ssz'', ''block_ver'',
      ''block_ssz'', ''status'', ''fork_id'']"
    by (cases eng) (simp_all add: InsertUnfinalizedBlock_query_def)
  have ph: "placeholders ?q = 8"
    by (cases eng) (simp_all add: InsertUnfinalizedBlock_query_def)
  have new_root: "map_of (zip (columns ?q) ?args) ''root'' = Some (VBytes (ubRoot blk))"
    unfolding columns by simp
  have "same_key (tkey t) (map_of (zip (columns ?q) ?args)) r"
    using stored(2) new_root by (simp add: key same_key_root)
  with stored(1) have clash: "filter (same_key (tkey t) (map_of (zip (columns ?q) ?args))) (trows t) \<noteq> []"
    by (auto simp: filter_empty_conv)
  have cf: "conflict ?q = OnConflictDoNothing [''root''] \<or> conflict ?q = InsertOrIgnore"
    by (cases eng) (simp_all add: InsertUnfinalizedBlock_query_def)
  have pre: "length (columns ?q) = placeholders ?q" "length ?args = placeholders ?q"
    "distinct (columns ?q)" "list_all (\<lambda>c. c \<in> set (tcolumns t)) (columns ?q)"
    "target_ok (conflict ?q) (tkey t)"
    using cols cf by (auto simp: columns ph key)
  show ?thesis
    unfolding InsertUnfinalizedBlock_def EngineQuery_def exec_insert_def into
    using clash cf pre by (auto simp: tbl Let_def)
qed

text \<open>
  A stored block re-inserted with other header, body, status and fork values: the stored
  row stays, on PostgreSQL and on SQLite.
\<close>

theorem InsertUnfinalizedBlock_keeps_stored_row_witness:
  "sampleTables ''unfinalized_blocks''
      = Some \<lparr> tcolumns = [''root'', ''slot'', ''header_ver'', ''header_ssz'', ''block_ver'',
                             ''block_ssz'', ''status'', ''fork_id'', ''payload_ver'', ''payload_ssz''],
                  tkey = [''root''], trows = [storedRow] \<rparr>
   \<and> storedRow ''root'' = Some (VBytes (ubRoot reinserted))
   \<and> InsertUnfinalizedBlock DBEnginePgsql reinserted sampleTables = Inr sampleTables
   \<and> InsertUnfinalizedBlock DBEngineSqlite reinserted sampleTables = Inr sampleTables"
proof -
  have t: "sampleTables ''unfinalized_blocks''
      = Some \<lparr> tcolumns = [''root'', ''slot'', ''header_ver'', ''header_ssz'', ''block_ver'',
                             ''block_ssz'', ''status'', ''fork_id'', ''payload_ver'', ''payload_ssz''],
                  tkey = [''root''], trows = [storedRow] \<rparr>"
    by (simp add: sampleTables_def)
  have r: "storedRow ''root'' = Some (VBytes (ubRoot reinserted))"
    by (simp add: storedRow_def reinserted_def)
  have "InsertUnfinalizedBlock eng reinserted sampleTables = Inr sampleTables" for eng
    by (rule InsertUnfinalizedBlock_keeps_stored_row
          [where t = "\<lparr> tcolumns = [''root'', ''slot'', ''header_ver'', ''header_ssz'', ''block_ver'',
                             ''block_ssz'', ''status'', ''fork_id'', ''payload_ver'', ''payload_ssz''],
                  tkey = [''root''], trows = [storedRow] \<rparr>" and r = storedRow])
       (simp_all add: t r)
  with t r show ?thesis by simp
qed

text \<open>A block whose root is new is added as a row.\<close>

lemma InsertUnfinalizedBlock_new_root:
  "InsertUnfinalizedBlock eng (reinserted\<lparr>ubRoot := [3]\<rparr>) sampleTables
     = Inr (sampleTables(''unfinalized_blocks'' \<mapsto>
         \<lparr> tcolumns = [''root'', ''slot'', ''header_ver'', ''header_ssz'', ''block_ver'',
                        ''block_ssz'', ''status'', ''fork_id'', ''payload_ver'', ''payload_ssz''],
           tkey = [''root''],
           trows = [storedRow,
                    map_of (zip [''root'', ''slot'', ''header_ver'', ''header_ssz'', ''block_ver'',
                                 ''block_ssz'', ''status'', ''fork_id'']
                      [VBytes [3], VInt 100, VInt 1, VBytes [9], VInt 4, VBytes [10], VInt 0, VInt 0])] \<rparr>))"
  by (cases eng)
    (simp_all add: InsertUnfinalizedBlock_def InsertUnfinalizedBlock_query_def EngineQuery_def exec_insert_def
      sampleTables_def storedRow_def reinserted_def same_key_def Let_def)

section \<open>Fork detection\<close>

text \<open>
  The fork counter tells whether a call created forks: relabelling blocks leaves it
  alone, a split raises it by two.
\<close>

lemma setBlockForkId_counter: "forkIdCounter (setBlockForkId r fid ix) = forkIdCounter ix"
  by (simp add: setBlockForkId_def)

lemma updateNewForkBlocks_loop_counter:
  "updateNewForkBlocks_loop f bs roots ix = Some (r, ix') \<Longrightarrow> forkIdCounter ix' = forkIdCounter ix"
proof (induction bs arbitrary: roots ix)
  case Nil
  then show ?case by simp
next
  case (Cons b bs)
  show ?case
  proof (cases "Slot b \<le> baseSlot f")
    case True
    with Cons.prems show ?thesis by simp
  next
    case False
    with Cons.prems obtain isIn d where g: "getCanonicalDistance ix (leafRoot f) (Root b) 0 = Some (isIn, d)"
      by (cases "getCanonicalDistance ix (leafRoot f) (Root b) 0") auto
    show ?thesis
    proof (cases isIn)
      case True
      with Cons.prems False g
      have "updateNewForkBlocks_loop f bs (roots @ [rootBytes (Root b)])
              (setBlockForkId (Root b) (forkId f) ix) = Some (r, ix')"
        by simp
      from Cons.IH [OF this] show ?thesis by (simp add: setBlockForkId_counter)
    next
      case no: False
      with Cons.prems False g have "updateNewForkBlocks_loop f bs roots ix = Some (r, ix')"
        by simp
      from Cons.IH [OF this] show ?thesis .
    qed
  qed
qed

lemma splitFork_counter:
  "splitFork b l1 l2 p fbs ix = Some (r, ix') \<Longrightarrow> forkIdCounter ix' = Suc (Suc (forkIdCounter ix))"
  unfolding splitFork_def updateNewForkBlocks_def newFork_def addFork_def
  by (auto split: option.splits prod.splits dest!: updateNewForkBlocks_loop_counter)

lemma processBlock_loop_no_split:
  "processBlock_loop ix blk p pid fbs rest pm = Some ((fid, tx), ix') \<Longrightarrow>
   forkIdCounter ix' = forkIdCounter ix \<Longrightarrow> ix' = ix \<and> tx = [] \<and> fid = pid"
proof (induction rest arbitrary: pm)
  case Nil
  then show ?case by simp
next
  case (Cons fb rest)
  show ?case
  proof (cases "Root fb \<in> pm")
    case True
    with Cons.prems(1) have "processBlock_loop ix blk p pid fbs rest pm = Some ((fid, tx), ix')" by simp
    from Cons.IH [OF this Cons.prems(2)] show ?thesis .
  next
    case False
    with Cons.prems(1) obtain res pm' where c: "checkForkDistance ix blk fb pm = Some (res, pm')"
      by (cases "checkForkDistance ix blk fb pm") auto
    have "splitFork b l1 l2 p fbs ix \<noteq> Some ((fid, tx), ix')" for b l1 l2
      using splitFork_counter [of b l1 l2 p fbs ix "(fid, tx)" ix'] Cons.prems(2) by auto
    with Cons.prems(1) False c
    have "processBlock_loop ix blk p pid fbs rest pm' = Some ((fid, tx), ix')"
      by (auto split: option.splits prod.splits if_splits)
    from Cons.IH [OF this Cons.prems(2)] show ?thesis .
  qed
qed

text \<open>
  C9, amended. A call of \<open>processBlock\<close> that creates no fork changes nothing: every
  cached block keeps its fork id, the fork map is the same, and no store write is asked
  for. This holds for the first call and for a repeated one, and for every order in which
  the range over the fork map yields the forks. So fork ids change only in a call that
  creates forks; that a repeated call creates none does not hold.
\<close>

theorem processBlock_without_split_changes_nothing:
  "processBlock forks ix blk = Some ((fid, tx), ix') \<Longrightarrow> forkIdCounter ix' = forkIdCounter ix \<Longrightarrow>
     ix' = ix \<and> tx = []"
proof -
  assume run: "processBlock forks ix blk = Some ((fid, tx), ix')"
    and same: "forkIdCounter ix' = forkIdCounter ix"
  from run obtain parent where
    loop: "processBlock_loop ix blk parent (case parent of None \<Rightarrow> 0 | Some p \<Rightarrow> forkId p)
             (sortBySlotDesc (getForkBlocks (blockCache ix) (case parent of None \<Rightarrow> 0 | Some p \<Rightarrow> forkId p)))
             (sortBySlotDesc (getForkBlocks (blockCache ix) (case parent of None \<Rightarrow> 0 | Some p \<Rightarrow> forkId p)))
             {} = Some ((fid, tx), ix')"
    by (auto simp: processBlock_def Let_def split: option.splits)
  from processBlock_loop_no_split [OF loop same] show ?thesis by simp
qed

text \<open>
  \<open>updateNewForkBlocks\<close> returns the nil slice as soon as it meets a block at or below
  the base slot, whatever it has collected before: when the blocks of the parent fork
  include such a block (the base itself, say), no root is returned.
\<close>

lemma updateNewForkBlocks_loop_nil:
  "list_ex (\<lambda>b. Slot b \<le> baseSlot f) bs \<Longrightarrow>
   updateNewForkBlocks_loop f bs roots ix = Some (r, ix') \<Longrightarrow> r = None"
proof (induction bs arbitrary: roots ix)
  case Nil
  then show ?case by simp
next
  case (Cons b bs)
  show ?case
  proof (cases "Slot b \<le> baseSlot f")
    case True
    with Cons.prems show ?thesis by simp
  next
    case False
    with Cons.prems(1) have ex: "list_ex (\<lambda>b. Slot b \<le> baseSlot f) bs" by simp
    from False Cons.prems(2) obtain isIn d where g: "getCanonicalDistance ix (leafRoot f) (Root b) 0 = Some (isIn, d)"
      by (cases "getCanonicalDistance ix (leafRoot f) (Root b) 0") auto
    show ?thesis
    proof (cases isIn)
      case True
      with Cons.prems(2) False g
      have "updateNewForkBlocks_loop f bs (roots @ [rootBytes (Root b)])
              (setBlockForkId (Root b) (forkId f) ix) = Some (r, ix')"
        by simp
      from Cons.IH [OF ex this] show ?thesis .
    next
      case no: False
      with Cons.prems(2) False g have "updateNewForkBlocks_loop f bs roots ix = Some (r, ix')"
        by simp
      from Cons.IH [OF ex this] show ?thesis .
    qed
  qed
qed

lemmas blk_defs = blkA_def blkB_def blkC_def blkD_def blkE_def blkC'_def blkD'_def blkE'_def
  cachedBlock_def newBlock_def

lemmas fork_eval =
  processBlock_def getClosestFork_def getForkBlocks_def sortBySlotDesc_def
  checkForkDistance_def checkForkDistance_loop.simps parentBlock_def GetParentRoot_def
  getBlockByRoot_def splitFork_def newFork_def addFork_def updateNewForkBlocks_def
  getCanonicalDistance_def canonicalWalk.simps setBlockForkId_def toDbFork_def

text \<open>
  Scenario 3, with E' processed last. The distance probe between E' and E meets at B
  after three steps on each side; the leaf blocks it returns are the children of B.
\<close>

lemma scenario3_probe:
  "checkForkDistance (scenario3 m) blkE' blkE {}
     = Some ((Some blkB, 3, Some blkC', 3, Some blkC),
             {Root blkE', Root blkE, Root blkD', Root blkD, Root blkC', Root blkC, Root blkB})"
  unfolding checkForkDistance_def scenario3_def
  by (simp add: checkForkDistance_loop.simps parentBlock_def GetParentRoot_def getBlockByRoot_def
      blk_defs) auto

lemma scenario3_at_threshold: "processBlock [] (scenario3 3) blkE' = Some ((0, []), scenario3 3)"
  by (simp add: fork_eval scenario3_def blk_defs)

lemma scenario3_any_block:
  "list_all (\<lambda>b. processBlock [] (scenario3 3) b = Some ((0, []), scenario3 3)) (blockCache (scenario3 3))"
  by (simp add: fork_eval scenario3_def blk_defs)

lemma scenario3_split:
  "processBlock [] (scenario3 2) blkE'
     = Some ((1, [TxInsertFork \<lparr> ForkId = 1, BaseSlot = 101, BaseRoot = rootBytes (Root blkB),
                                  LeafSlot = 102, LeafRoot = rootBytes (Root blkC'), ParentFork = 0 \<rparr>,
                  TxUpdateUnfinalizedBlockForkId None 1,
                  TxInsertFork \<lparr> ForkId = 2, BaseSlot = 101, BaseRoot = rootBytes (Root blkB),
                                  LeafSlot = 102, LeafRoot = rootBytes (Root blkC), ParentFork = 0 \<rparr>,
                  TxUpdateUnfinalizedBlockForkId None 2]),
             \<lparr> blockCache = [blkA, blkB, blkC\<lparr>Block.forkId := 2\<rparr>, blkD, blkE,
                              blkC'\<lparr>Block.forkId := 1\<rparr>, blkD', blkE'],
               forkMap = [(1, \<lparr> forkId = 1, baseSlot = 101, baseRoot = Root blkB,
                                 leafSlot = 102, leafRoot = Root blkC', parentFork = 0 \<rparr>),
                          (2, \<lparr> forkId = 2, baseSlot = 101, baseRoot = Root blkB,
                                 leafSlot = 102, leafRoot = Root blkC, parentFork = 0 \<rparr>)],
               forkIdCounter = 3, minForkDistance = 2, finalizedSlot = 64 \<rparr>)"
  by (simp add: fork_eval scenario3_def blk_defs)

text \<open>
  Forks are created only through a probe whose two distances are both strictly greater
  than the minimal fork distance.
\<close>

lemma processBlock_loop_split_needs_distance:
  "processBlock_loop ix blk p pid fbs rest pm = Some (r, ix') \<Longrightarrow>
   forkIdCounter ix' \<noteq> forkIdCounter ix \<Longrightarrow>
   \<exists>fb pm0 base d1 l1 d2 l2 pm1.
      checkForkDistance ix blk fb pm0 = Some ((Some base, d1, Some l1, d2, Some l2), pm1)
      \<and> minForkDistance ix < d1 \<and> minForkDistance ix < d2
      \<and> splitFork base l1 l2 p fbs ix = Some (r, ix')"
proof (induction rest arbitrary: pm)
  case Nil
  then show ?case by auto
next
  case (Cons fb rest)
  show ?case
  proof (cases "Root fb \<in> pm")
    case True
    with Cons.prems(1) have "processBlock_loop ix blk p pid fbs rest pm = Some (r, ix')" by simp
    from Cons.IH [OF this Cons.prems(2)] show ?thesis .
  next
    case False
    with Cons.prems(1) obtain res pm' where c: "checkForkDistance ix blk fb pm = Some (res, pm')"
      by (cases "checkForkDistance ix blk fb pm") auto
    obtain base d1 l1 d2 l2 where res: "res = (base, d1, l1, d2, l2)" by (cases res)
    show ?thesis
    proof (cases "\<exists>b a c. base = Some b \<and> l1 = Some a \<and> l2 = Some c
                    \<and> minForkDistance ix < d1 \<and> minForkDistance ix < d2")
      case True
      then obtain b a c where s: "base = Some b" "l1 = Some a" "l2 = Some c"
        "minForkDistance ix < d1" "minForkDistance ix < d2" by auto
      with Cons.prems(1) False c res have "splitFork b a c p fbs ix = Some (r, ix')" by simp
      with c res s show ?thesis by blast
    next
      case no: False
      with Cons.prems(1) False c res
      have "processBlock_loop ix blk p pid fbs rest pm' = Some (r, ix')"
        by (auto split: option.splits if_splits)
      from Cons.IH [OF this Cons.prems(2)] show ?thesis .
    qed
  qed
qed

text \<open>
  C1 as stated fails: with a minimal fork distance of 3 the two distances of 3 are not
  greater than it; \<open>processBlock\<close> on E' returns fork 0, creates no fork and relabels no
  block, and so does \<open>processBlock\<close> on every other block of the scenario.
\<close>

theorem split_not_created_at_threshold:
  "checkForkDistance (scenario3 3) blkE' blkE {}
     = Some ((Some blkB, 3, Some blkC', 3, Some blkC),
             {Root blkE', Root blkE, Root blkD', Root blkD, Root blkC', Root blkC, Root blkB})
   \<and> processBlock [] (scenario3 3) blkE' = Some ((0, []), scenario3 3)
   \<and> forkMap (scenario3 3) = []
   \<and> list_all (\<lambda>b. processBlock [] (scenario3 3) b = Some ((0, []), scenario3 3))
         (blockCache (scenario3 3))"
  using scenario3_probe [of 3] scenario3_at_threshold scenario3_any_block
  by (simp add: scenario3_def)

text \<open>
  C1, amended. In scenario 3 a minimal fork distance of 3 gives no fork. With a minimal
  fork distance of 2 the call on E' creates two forks, both with base B@101; their leaf
  blocks are C' and C, the first blocks after the base on the two sides, and C' is
  labelled with the first fork, C with the second. The key returned is the one of the
  fork on the side of E'.
\<close>

theorem split_needs_distance_above_minimum:
  "processBlock [] (scenario3 3) blkE' = Some ((0, []), scenario3 3)
   \<and> (\<exists>tx ix. processBlock [] (scenario3 2) blkE' = Some ((1, tx), ix)
        \<and> map snd (forkMap ix)
            = [\<lparr> forkId = 1, baseSlot = 101, baseRoot = Root blkB,
                  leafSlot = 102, leafRoot = Root blkC', parentFork = 0 \<rparr>,
               \<lparr> forkId = 2, baseSlot = 101, baseRoot = Root blkB,
                  leafSlot = 102, leafRoot = Root blkC, parentFork = 0 \<rparr>]
        \<and> map_option Block.forkId (getBlockByRoot (blockCache ix) (Root blkC')) = Some 1
        \<and> map_option Block.forkId (getBlockByRoot (blockCache ix) (Root blkC)) = Some 2)"
  using scenario3_at_threshold scenario3_split
  by (simp add: getBlockByRoot_def blk_defs)

text \<open>
  C2 (fails in the code). Scenario 3 with a minimal fork distance of 2: the split is
  detected and blocks are relabelled in memory (C' to fork 1, C to fork 2), but both
  calls of \<open>UpdateUnfinalizedBlockForkId\<close> in the transaction get the nil slice, since
  \<open>updateNewForkBlocks\<close> returns nil on reaching B: no reassigned root reaches the
  store.
\<close>

theorem reassigned_roots_not_persisted:
  "(case processBlock [] (scenario3 2) blkE' of
      None \<Rightarrow> False
    | Some ((fid, tx), ix) \<Rightarrow>
        map_option Block.forkId (getBlockByRoot (blockCache ix) (Root blkC')) = Some 1
        \<and> map_option Block.forkId (getBlockByRoot (blockCache ix) (Root blkC)) = Some 2
        \<and> tx = [TxInsertFork \<lparr> ForkId = 1, BaseSlot = 101, BaseRoot = rootBytes (Root blkB),
                                 LeafSlot = 102, LeafRoot = rootBytes (Root blkC'), ParentFork = 0 \<rparr>,
                 TxUpdateUnfinalizedBlockForkId None 1,
                 TxInsertFork \<lparr> ForkId = 2, BaseSlot = 101, BaseRoot = rootBytes (Root blkB),
                                 LeafSlot = 102, LeafRoot = rootBytes (Root blkC), ParentFork = 0 \<rparr>,
                 TxUpdateUnfinalizedBlockForkId None 2])"
  using scenario3_split by (simp add: getBlockByRoot_def blk_defs)

text \<open>
  The state reached in scenario 3 by the split at a minimal fork distance of 2, and two
  calls on B in that state. B is one step below the leaf of either fork, so the fork
  returned is the one that the range yields first; neither call creates a fork.
\<close>

lemma scenario3_split_state:
  "map_option snd (processBlock [] (scenario3 2) blkE') = Some scenario3Split"
  using scenario3_split by (simp add: scenario3Split_def forkC'_def forkC_def)

lemma scenario3Split_first_order:
  "processBlock [(1, forkC'), (2, forkC)] scenario3Split blkB = Some ((1, []), scenario3Split)"
  by (simp add: fork_eval scenario3Split_def forkC'_def forkC_def blk_defs)

lemma scenario3Split_second_order:
  "processBlock [(2, forkC), (1, forkC')] scenario3Split blkB = Some ((2, []), scenario3Split)"
  by (simp add: fork_eval scenario3Split_def forkC'_def forkC_def blk_defs)

text \<open>
  C9 as stated fails. On the tree with a fork inside a fork no block has a fork yet and
  the fork map is empty. The first call on Y4b creates forks 1 and 2 and returns 1. The
  second call on Y4b, with nothing else changed, creates forks 3 and 4 and returns 3, in
  either order in which its range can yield forks 1 and 2.
\<close>

theorem repeated_call_splits_again:
  "forkMap nestedForks = []
   \<and> (case processBlock [] nestedForks blkY4b of
         None \<Rightarrow> False
       | Some ((fid, tx), ix) \<Rightarrow>
           map fst (forkMap ix) = [1, 2]
           \<and> list_all
                (\<lambda>forks. forkRange ix forks
                   \<and> (case processBlock forks ix blkY4b of
                         None \<Rightarrow> False
                       | Some ((fid', tx'), ix') \<Rightarrow>
                           fid' = 3 \<and> map fst (forkMap ix') = [1, 2, 3, 4]))
                [forkMap ix, rev (forkMap ix)])"
  by (simp add: fork_eval forkRange_def nestedForks_def blkY4b_def cachedBlock_def newBlock_def)

text \<open>
  The two calls on B after the split of scenario 3 are calls without a new fork, on a
  fork map with two forks and in both orders of its range.
\<close>

theorem processBlock_without_split_changes_nothing_witness:
  "map_option snd (processBlock [] (scenario3 2) blkE') = Some scenario3Split
   \<and> forkRange scenario3Split [(1, forkC'), (2, forkC)]
   \<and> forkRange scenario3Split [(2, forkC), (1, forkC')]
   \<and> processBlock [(1, forkC'), (2, forkC)] scenario3Split blkB = Some ((1, []), scenario3Split)
   \<and> processBlock [(2, forkC), (1, forkC')] scenario3Split blkB = Some ((2, []), scenario3Split)
   \<and> forkIdCounter scenario3Split = 3"
proof -
  have r1: "forkRange scenario3Split [(1, forkC'), (2, forkC)]"
    by (simp add: forkRange_def scenario3Split_def)
  have r2: "forkRange scenario3Split [(2, forkC), (1, forkC')]"
    by (auto simp: forkRange_def scenario3Split_def)
  have c: "forkIdCounter scenario3Split = 3"
    by (simp add: scenario3Split_def)
  from processBlock_without_split_changes_nothing [OF scenario3Split_first_order]
    processBlock_without_split_changes_nothing [OF scenario3Split_second_order]
    scenario3_split_state scenario3Split_first_order scenario3Split_second_order r1 r2 c
  show ?thesis by simp
qed

end
